theory Spec2Isabelle
  imports Main
begin

section \<open>Data model\<close>

text \<open>
  The delivery core of the eventing platform: the pool of HTTP clients
  (\<open>pkg/kncloudevents/http_client_new.go\<close>), the backoff wrapper (\<open>generateBackoffFn\<close>,
  \<open>parseRetryAfterDuration\<close>) and the dispatch pipeline (\<open>send\<close>, \<open>executeRequest\<close>,
  \<open>dispatchExecutionInfoTransformers\<close>, \<open>sanitizeURL\<close>).

  Go values are modelled by value. A nil pointer is \<open>None\<close>. A byte slice and a string
  are both \<open>string\<close>, a nil slice being the empty one. An \<open>error\<close> is its message, a
  nil error is \<open>None\<close>. \<open>time.Duration\<close> is a signed 64-bit count of nanoseconds,
  modelled as \<open>int\<close> with the wrap-around written out where the code multiplies.
\<close>

type_synonym error = string
type_synonym duration = int

text \<open>\<open>http.Header\<close>: a map from header names to their values. A nil map reads like an
  empty one.\<close>

type_synonym header = "string \<rightharpoonup> string list"

text \<open>\<open>apis.URL\<close> (Go's \<open>url.URL\<close>).\<close>

record url =
  Scheme :: string
  Opaque :: string
  User :: "string option"
  Host :: string
  Path :: string
  RawPath :: string
  OmitHost :: bool
  ForceQuery :: bool
  RawQuery :: string
  Fragment :: string
  RawFragment :: string

text \<open>The zero value \<open>apis.URL{}\<close>.\<close>

definition zeroURL :: url where
  "zeroURL = \<lparr>Scheme = [], Opaque = [], User = None, Host = [], Path = [], RawPath = [],
     OmitHost = False, ForceQuery = False, RawQuery = [], Fragment = [], RawFragment = []\<rparr>"

text \<open>\<open>duckv1.Addressable\<close>.\<close>

record addressable =
  Name :: "string option"
  URL :: "url option"
  CACerts :: "string option"
  Audience :: "string option"

section \<open>URL sanitization\<close>

text \<open>\<open>sanitizeURL\<close> and \<open>sanitizeAddressable\<close>; the two copies of the dispatcher carry
  the same text for both.\<close>

definition sanitizeURL :: "url option \<Rightarrow> url option" where
  "sanitizeURL u =
     (case u of
        None \<Rightarrow> None
      | Some v \<Rightarrow>
          if Scheme v = ''http'' \<or> Scheme v = ''https'' then Some v
          else Some (zeroURL\<lparr>Scheme := ''http'', Host := Host v, Path := ''/''\<rparr>))"

definition sanitizeAddressable :: "addressable option \<Rightarrow> addressable option" where
  "sanitizeAddressable a =
     (case a of
        None \<Rightarrow> None
      | Some b \<Rightarrow> Some (b\<lparr>URL := sanitizeURL (URL b)\<rparr>))"

section \<open>Requests, responses and the retry policy\<close>

text \<open>\<open>http.Response\<close>: the fields the code reads. \<open>Body\<close> is what reading the
  response body yields and \<open>BodyReadErr\<close> the error of that read (\<open>body.ReadFrom\<close>),
  \<open>None\<close> when the body was read to its end.\<close>

record http_response =
  Status :: string
  StatusCode :: int
  RespHeader :: header
  Body :: string
  BodyReadErr :: "error option"

text \<open>\<open>RetryConfig\<close>: the fields the code reads. \<open>RetryAfterMaxDuration\<close> is a pointer:
  absent, zero or positive.\<close>

record RetryConfig =
  RetryMax :: int
  CheckRetry :: "http_response option \<Rightarrow> error option \<Rightarrow> bool \<times> error option"
  Backoff :: "int \<Rightarrow> http_response option \<Rightarrow> duration"
  RequestTimeout :: duration
  RetryAfterMaxDuration :: "duration option"

text \<open>\<open>binding.Encoding\<close> of a message.\<close>

datatype encoding = EncodingBinary | EncodingStructured | EncodingEvent | EncodingUnknown

text \<open>A \<open>binding.Message\<close>: the message of an event handed in by the caller, or the
  message \<open>cehttp.NewMessage\<close> builds from the header and the body of a response.\<close>

datatype message = EventMessage string | HTTPMessage header string

text \<open>A \<open>binding.Transformer\<close>. \<open>KnativeErrorTransformers\<close> and \<open>PopulateSpan\<close> stand
  for the results of \<open>attributes.KnativeErrorTransformers\<close> and \<open>tracing.PopulateSpan\<close>
  at the given arguments; \<open>Transformers\<close> is a \<open>binding.Transformers\<close> slice passed as
  one transformer.\<close>

datatype transformer =
    KnativeErrorTransformers url int string
  | PopulateSpan string
  | Transformers "transformer list"

record DispatchInfo =
  Duration :: duration
  ResponseCode :: int
  ResponseHeader :: header
  ResponseBody :: string

definition NoDuration :: duration where
  "NoDuration = - 1"

definition NoResponse :: int where
  "NoResponse = - 1"

text \<open>The zero value \<open>DispatchInfo{}\<close>.\<close>

definition zeroDispatchInfo :: DispatchInfo where
  "zeroDispatchInfo = \<lparr>Duration = 0, ResponseCode = 0, ResponseHeader = Map.empty, ResponseBody = []\<rparr>"

text \<open>An outbound \<open>http.Request\<close>: a POST to \<open>ReqURL\<close> whose body is \<open>ReqMessage\<close> after
  \<open>ReqTransformers\<close>.\<close>

record http_request =
  ReqURL :: string
  ReqHeader :: header
  ReqMessage :: message
  ReqTransformers :: "transformer list"

text \<open>\<open>http.Transport\<close> and \<open>http.Client\<close>: the fields the code writes. \<open>TLSRootCAs\<close> is the
  certificate pool of \<open>TLSClientConfig\<close>, \<open>None\<close> while the transport keeps its default
  configuration. \<open>CheckRedirect\<close> and \<open>Jar\<close> are nil throughout.\<close>

record transport =
  TLSRootCAs :: "string list option"
  TransportMaxIdleConns :: int
  TransportMaxIdleConnsPerHost :: int

record http_client =
  Base :: transport
  Timeout :: duration

record ConnectionArgs =
  MaxIdleConns :: int
  MaxIdleConnsPerHost :: int

text \<open>The fields \<open>DoWithRetries\<close> gives the \<open>retryablehttp.Client\<close> it builds.\<close>

record retryable =
  RetryWaitMin :: duration
  RetryWaitMax :: duration
  RetryableMax :: int
  RetryableCheck :: "http_response option \<Rightarrow> error option \<Rightarrow> bool \<times> error option"
  RetryableBackoff :: "duration \<Rightarrow> duration \<Rightarrow> int \<Rightarrow> http_response option \<Rightarrow> duration"

text \<open>One call of \<open>Do\<close>: the client, the request, and the retry wrapper if there is one.\<close>

record exchange =
  ExClient :: http_client
  ExRequest :: http_request
  ExRetry :: "retryable option"

section \<open>The environment\<close>

text \<open>
  What the code calls outside this repository, as parameters: Go's \<open>url.URL.String\<close>,
  \<open>x509.SystemCertPool\<close> and the certificates \<open>AppendCertsFromPEM\<close> parses from a PEM text
  (none: it returns false), \<open>http.DefaultTransport\<close>, \<open>http.ParseTime\<close> followed by
  \<open>time.Until\<close>, whether the trace span records events, \<open>http.NewRequestWithContext\<close>,
  the headers \<open>cehttp.WriteRequest\<close> writes, \<open>retryablehttp.FromRequest\<close> (the time it took and its error, if it fails), the outcome of
  \<open>Do\<close> (the time it took and the response or the error) given the calls made before,
  \<open>utils.PassThroughHeaders\<close>, \<open>ReadEncoding\<close> of a response message,
  the host name of the broker filter, \<open>json.Unmarshal\<close> into \<open>broker.ErrExtensionInfo\<close>,
  \<open>attributes.KnativeErrorDataExtensionMaxLength\<close>, \<open>base64.StdEncoding\<close> and
  \<open>eventingapis.KnNamespaceHeader\<close>.
\<close>

record env =
  urlString :: "url \<Rightarrow> string"
  systemCertPool :: "error + string list"
  parseCertsFromPEM :: "string \<Rightarrow> string list"
  defaultTransport :: transport
  httpDateUntil :: "string \<Rightarrow> duration option"
  spanRecording :: bool
  newRequestWithContext :: "string \<Rightarrow> error option"
  writeRequest :: "message \<Rightarrow> transformer list \<Rightarrow> error + header"
  fromRequest :: "http_request \<Rightarrow> (duration \<times> error) option"
  roundTrip :: "exchange list \<Rightarrow> exchange \<Rightarrow> duration \<times> (error + http_response)"
  passThroughHeaders :: "header \<Rightarrow> header"
  readEncoding :: "header \<Rightarrow> string \<Rightarrow> encoding"
  brokerFilterHost :: string
  unmarshalErrExtensionInfo :: "string \<Rightarrow> (url option \<times> string) option"
  knativeErrorDataExtensionMaxLength :: nat
  stdEncode :: "string \<Rightarrow> string"
  knNamespaceHeader :: string

text \<open>\<open>String\<close> of an \<open>apis.URL\<close> pointer: the empty string for a nil URL.\<close>

definition URL_String :: "env \<Rightarrow> url option \<Rightarrow> string" where
  "URL_String env u = (case u of None \<Rightarrow> [] | Some v \<Rightarrow> urlString env v)"

section \<open>The state\<close>

text \<open>
  The package variables \<open>clients\<close> and \<open>connectionArgs\<close>, the connection arguments of the
  old client (set by \<open>configureConnectionArgsOldClient\<close>), what was printed, every call of
  \<open>Do\<close> so far, and the messages finished so far. Every function that takes the mutex
  runs its whole body under it, so each is one step on this state.
\<close>

record world =
  clients :: "string \<rightharpoonup> http_client"
  connectionArgs :: "ConnectionArgs option"
  oldClientConnectionArgs :: "ConnectionArgs option"
  stdout :: "string list"
  sent :: "exchange list"
  finished :: "message list"

section \<open>The client pool\<close>

definition configureTransport :: "ConnectionArgs option \<Rightarrow> transport \<Rightarrow> transport" where
  "configureTransport ca t =
     (case ca of
        None \<Rightarrow> t
      | Some c \<Rightarrow> t\<lparr>TransportMaxIdleConns := MaxIdleConns c,
                    TransportMaxIdleConnsPerHost := MaxIdleConnsPerHost c\<rparr>)"

definition createNewClient :: "env \<Rightarrow> world \<Rightarrow> addressable \<Rightarrow> error + http_client" where
  "createNewClient env w a =
     (let base = defaultTransport env in
      case (case CACerts a of
              None \<Rightarrow> Inr base
            | Some pem \<Rightarrow>
                if pem = [] then Inr base
                else (case systemCertPool env of
                        Inl err \<Rightarrow> Inl (''could not get system cert pool: '' @ err)
                      | Inr certPool \<Rightarrow>
                          if parseCertsFromPEM env pem = []
                          then Inl ''failed to append CA certs from PEM to cert pool''
                          else Inr (base\<lparr>TLSRootCAs :=
                                  Some (certPool @ parseCertsFromPEM env pem)\<rparr>))) of
        Inl err \<Rightarrow> Inl err
      | Inr base' \<Rightarrow>
          Inr \<lparr>Base = configureTransport (connectionArgs w) base', Timeout = 0\<rparr>)"

definition getClientForAddressable ::
  "env \<Rightarrow> world \<Rightarrow> addressable \<Rightarrow> (error + http_client) \<times> world" where
  "getClientForAddressable env w a =
     (let clientKey = URL_String env (URL a) in
      case clients w clientKey of
        Some client \<Rightarrow> (Inr client, w)
      | None \<Rightarrow>
          (case createNewClient env w a of
             Inl err \<Rightarrow> (Inl (''failed to create new client for addressable: '' @ err), w)
           | Inr newClient \<Rightarrow>
               (Inr newClient, w\<lparr>clients := (clients w)(clientKey \<mapsto> newClient)\<rparr>)))"

definition AddOrUpdateAddressableHandler :: "env \<Rightarrow> world \<Rightarrow> addressable \<Rightarrow> world" where
  "AddOrUpdateAddressableHandler env w a =
     (let clientKey = URL_String env (URL a) in
      case createNewClient env w a of
        Inl err \<Rightarrow> w\<lparr>stdout := stdout w @ [''failed to create new client: '' @ err]\<rparr>
      | Inr client \<Rightarrow> w\<lparr>clients := (clients w)(clientKey \<mapsto> client)\<rparr>)"

definition DeleteAddressableHandler :: "env \<Rightarrow> world \<Rightarrow> addressable \<Rightarrow> world" where
  "DeleteAddressableHandler env w a =
     (let clientKey = URL_String env (URL a) in
      w\<lparr>clients := (clients w)(clientKey := None)\<rparr>)"

text \<open>Modelled from the spec: \<open>configureConnectionArgsOldClient\<close> is not among the sources.
  It configures the connection arguments of the old client, which shares no state with
  the cache of this file.\<close>

definition configureConnectionArgsOldClient :: "ConnectionArgs option \<Rightarrow> world \<Rightarrow> world" where
  "configureConnectionArgsOldClient ca w = w\<lparr>oldClientConnectionArgs := ca\<rparr>"

text \<open>\<open>ConfigureConnectionArgs\<close>. \<open>CloseIdleConnections\<close> on the clients it drops leaves
  no trace in this state.\<close>

definition ConfigureConnectionArgs :: "world \<Rightarrow> ConnectionArgs option \<Rightarrow> world" where
  "ConfigureConnectionArgs w0 ca =
     (let w = configureConnectionArgsOldClient ca w0 in
      case (connectionArgs w, ca) of
        (Some cur, Some new) \<Rightarrow>
          if MaxIdleConns new = MaxIdleConns cur \<and>
             MaxIdleConnsPerHost new = MaxIdleConnsPerHost cur
          then w
          else w\<lparr>clients := Map.empty, connectionArgs := ca\<rparr>
      | _ \<Rightarrow> w\<lparr>clients := Map.empty, connectionArgs := ca\<rparr>)"

section \<open>Backoff and the Retry-After header\<close>

text \<open>\<open>int64\<close>: the value a 64-bit signed integer holds after an arithmetic result
  wraps around.\<close>

definition int64 :: "int \<Rightarrow> int" where
  "int64 x = (x + 2 ^ 63) mod 2 ^ 64 - 2 ^ 63"

definition Second :: duration where
  "Second = 1000000000"

definition RetryAfterHeader :: string where
  "RetryAfterHeader = ''Retry-After''"

text \<open>\<open>Header.Get\<close> and \<open>Header.Set\<close>, at keys that are in canonical form already (every
  key the code uses is such a constant): the first value of the key or the empty string;
  the key set to the single value.\<close>

definition Header_Get :: "header \<Rightarrow> string \<Rightarrow> string" where
  "Header_Get h k = (case h k of None \<Rightarrow> [] | Some vs \<Rightarrow> (case vs of [] \<Rightarrow> [] | v # _ \<Rightarrow> v))"

definition Header_Set :: "header \<Rightarrow> string \<Rightarrow> string \<Rightarrow> header" where
  "Header_Set h k v = h(k \<mapsto> [v])"

text \<open>\<open>strconv.ParseInt(s, 10, 64)\<close> of the Go library, \<open>None\<close> where it returns an
  error: an optional sign, then decimal digits only, the value within 64 signed bits.\<close>

definition digitValue :: "char \<Rightarrow> nat option" where
  "digitValue c =
     (let n = (of_char c :: nat) in if 48 \<le> n \<and> n \<le> 57 then Some (n - 48) else None)"

fun parseDigits :: "nat \<Rightarrow> string \<Rightarrow> nat option" where
  "parseDigits acc [] = Some acc"
| "parseDigits acc (c # cs) =
     (case digitValue c of None \<Rightarrow> None | Some d \<Rightarrow> parseDigits (acc * 10 + d) cs)"

definition ParseInt :: "string \<Rightarrow> int option" where
  "ParseInt s =
     (case s of
        [] \<Rightarrow> None
      | c # cs \<Rightarrow>
          (let neg = (c = CHR ''-'');
               ds = (if c = CHR ''+'' \<or> c = CHR ''-'' then cs else s)
           in if ds = [] then None
              else (case parseDigits 0 ds of
                      None \<Rightarrow> None
                    | Some un \<Rightarrow>
                        if \<not> neg \<and> un \<ge> 2 ^ 63 then None
                        else if neg \<and> un > 2 ^ 63 then None
                        else Some (if neg then - int un else int un))))"

text \<open>\<open>parseRetryAfterDuration\<close>. The line it prints when the header parses neither as
  seconds nor as a date is not part of its result.\<close>

definition parseRetryAfterDuration :: "env \<Rightarrow> http_response option \<Rightarrow> duration" where
  "parseRetryAfterDuration env resp =
     (case resp of
        None \<Rightarrow> 0
      | Some r \<Rightarrow>
          (let retryAfterString = Header_Get (RespHeader r) RetryAfterHeader in
           if length retryAfterString \<le> 0 then 0
           else (case ParseInt retryAfterString of
                   Some retryAfterInt \<Rightarrow> int64 (retryAfterInt * Second)
                 | None \<Rightarrow>
                     (case httpDateUntil env retryAfterString of
                        None \<Rightarrow> 0
                      | Some d \<Rightarrow> d))))"

definition generateBackoffFn ::
  "env \<Rightarrow> RetryConfig \<Rightarrow> duration \<Rightarrow> duration \<Rightarrow> int \<Rightarrow> http_response option \<Rightarrow> duration" where
  "generateBackoffFn env config =
     (\<lambda>_ _ attemptNum resp.
        let retryAfterDuration =
              (case RetryAfterMaxDuration config of
                 None \<Rightarrow> 0
               | Some maxDuration \<Rightarrow>
                   (case resp of
                      None \<Rightarrow> 0
                    | Some r \<Rightarrow>
                        if StatusCode r = 429 \<or> StatusCode r = 503
                        then (let d = parseRetryAfterDuration env resp
                              in if maxDuration < d then maxDuration else d)
                        else 0));
            backoffDuration = Backoff config attemptNum resp
        in if retryAfterDuration > backoffDuration then retryAfterDuration
           else backoffDuration)"

section \<open>The dispatch pipeline\<close>

text \<open>A Go function either returns or panics.\<close>

datatype 'a result = Returns 'a | Panics string

definition nilDereference :: string where
  "nilDereference = ''runtime error: invalid memory address or nil pointer dereference''"

definition indexOutOfRange :: string where
  "indexOutOfRange = ''runtime error: index out of range''"

definition io_EOF :: error where
  "io_EOF = ''EOF''"

definition defaultRetryWaitMin :: duration where
  "defaultRetryWaitMin = 1 * Second"

definition defaultRetryWaitMax :: duration where
  "defaultRetryWaitMax = 30 * Second"

text \<open>The decimal form of an integer, as \<open>%d\<close> prints it.\<close>

definition digitChar :: "nat \<Rightarrow> char" where
  "digitChar n = ''0123456789'' ! n"

fun showNat :: "nat \<Rightarrow> string" where
  "showNat n =
     (if n < 10 then [digitChar n] else showNat (n div 10) @ [digitChar (n mod 10)])"

declare showNat.simps [simp del]

definition showInt :: "int \<Rightarrow> string" where
  "showInt i = (if i < 0 then CHR ''-'' # showNat (nat (- i)) else showNat (nat i))"

definition isFailure :: "int \<Rightarrow> bool" where
  "isFailure statusCode = (statusCode < 200 \<or> statusCode \<ge> 300)"

text \<open>\<open>base64.StdEncoding.EncodedLen\<close>.\<close>

definition EncodedLen :: "nat \<Rightarrow> nat" where
  "EncodedLen n = (n + 2) div 3 * 4"

text \<open>
  \<open>dispatchExecutionInfoTransformers\<close> (the same text in both copies). \<open>Encode\<close> writes
  \<open>EncodedLen (len src)\<close> bytes to the buffer it is given; the buffer here is made with
  the length after the cap, so the write runs past its end, and the function panics,
  whenever the encoded body is longer than the cap.
\<close>

definition dispatchExecutionInfoTransformers ::
  "env \<Rightarrow> url option \<Rightarrow> DispatchInfo \<Rightarrow> transformer list result" where
  "dispatchExecutionInfoTransformers env destination dispatchExecutionInfo =
     (let destination0 = (case destination of None \<Rightarrow> zeroURL | Some u \<Rightarrow> u) in
      case (if Host destination0 = brokerFilterHost env
            then unmarshalErrExtensionInfo env (ResponseBody dispatchExecutionInfo)
            else Some (Some destination0, ResponseBody dispatchExecutionInfo)) of
        None \<Rightarrow> Returns []
      | Some (destination1, httpResponseBody) \<Rightarrow>
          (let destination2 = sanitizeURL destination1;
               bodyLen = length httpResponseBody;
               encodedLen =
                 (if EncodedLen bodyLen > knativeErrorDataExtensionMaxLength env
                  then knativeErrorDataExtensionMaxLength env else EncodedLen bodyLen)
           in if encodedLen < EncodedLen bodyLen then Panics indexOutOfRange
              else Returns
                     [KnativeErrorTransformers
                        (case destination2 of None \<Rightarrow> zeroURL | Some u \<Rightarrow> u)
                        (ResponseCode dispatchExecutionInfo)
                        (take encodedLen (stdEncode env httpResponseBody))]))"

subsection \<open>The dispatcher of \<open>src/unnamed/part_005\<close>\<close>

definition createRequest ::
  "env \<Rightarrow> message \<Rightarrow> addressable \<Rightarrow> header \<Rightarrow> transformer list \<Rightarrow> error + http_request" where
  "createRequest env message target additionalHeaders transformers =
     (case newRequestWithContext env (URL_String env (URL target)) of
        Some err \<Rightarrow> Inl (''could not create http request: '' @ err)
      | None \<Rightarrow>
          (case writeRequest env message transformers of
             Inl err \<Rightarrow> Inl (''could not write message to request: '' @ err)
           | Inr h \<Rightarrow>
               Inr \<lparr>ReqURL = URL_String env (URL target), ReqHeader = h ++ additionalHeaders,
                    ReqMessage = message, ReqTransformers = transformers\<rparr>))"

definition newClient :: "env \<Rightarrow> world \<Rightarrow> addressable \<Rightarrow> (error + http_client) \<times> world" where
  "newClient env w target =
     (case getClientForAddressable env w target of
        (Inl err, w') \<Rightarrow> (Inl (''failed to get http client for addressable: '' @ err), w')
      | (Inr c, w') \<Rightarrow> (Inr c, w'))"

text \<open>\<open>Do\<close> of the plain and of the retrying client: the call is recorded, its outcome is
  the environment's.\<close>

definition Do ::
  "env \<Rightarrow> world \<Rightarrow> exchange \<Rightarrow> (duration \<times> (error + http_response)) \<times> world" where
  "Do env w x = (roundTrip env (sent w) x, w\<lparr>sent := sent w @ [x]\<rparr>)"

definition DoWithRetries ::
  "env \<Rightarrow> world \<Rightarrow> http_client \<Rightarrow> http_request \<Rightarrow> RetryConfig option \<Rightarrow>
     (duration \<times> (error + http_response)) \<times> world" where
  "DoWithRetries env w c req retryConfig =
     (case retryConfig of
        None \<Rightarrow> Do env w \<lparr>ExClient = c, ExRequest = req, ExRetry = None\<rparr>
      | Some rc \<Rightarrow>
          (let client = (if RequestTimeout rc \<noteq> 0
                         then \<lparr>Base = Base c, Timeout = RequestTimeout rc\<rparr> else c);
               retryableClient =
                 \<lparr>RetryWaitMin = defaultRetryWaitMin, RetryWaitMax = defaultRetryWaitMax,
                  RetryableMax = RetryMax rc, RetryableCheck = CheckRetry rc,
                  RetryableBackoff = generateBackoffFn env rc\<rparr>
           in case fromRequest env req of
                Some (elapsed, err) \<Rightarrow> ((elapsed, Inl err), w)
              | None \<Rightarrow>
                  Do env w \<lparr>ExClient = client, ExRequest = req,
                            ExRetry = Some retryableClient\<rparr>))"

text \<open>
  \<open>executeRequest\<close>. Where the read of the response body failed, both branches format
  \<open>err.Error()\<close> with \<open>err\<close> the error of the send, which is nil there: a nil
  dereference.
\<close>

definition executeRequest_p5 ::
  "env \<Rightarrow> world \<Rightarrow> addressable \<Rightarrow> message \<Rightarrow> header \<Rightarrow> RetryConfig option \<Rightarrow>
     transformer list \<Rightarrow> (message option \<times> DispatchInfo \<times> error option) result \<times> world" where
  "executeRequest_p5 env w target message additionalHeaders retryConfig transformers0 =
     (let dispatchInfo =
            \<lparr>Duration = NoDuration, ResponseCode = NoResponse, ResponseHeader = Map.empty,
             ResponseBody = []\<rparr>;
          transformers =
            (if spanRecording env
             then transformers0 @ [PopulateSpan (URL_String env (URL target))]
             else transformers0)
      in case createRequest env message target additionalHeaders transformers of
           Inl err \<Rightarrow> (Returns (None, dispatchInfo, Some err), w)
         | Inr req \<Rightarrow>
             (case newClient env w target of
                (Inl err, w1) \<Rightarrow> (Returns (None, dispatchInfo, Some err), w1)
              | (Inr client, w1) \<Rightarrow>
                  (case DoWithRetries env w1 client req retryConfig of
                     ((elapsed, outcome), w2) \<Rightarrow>
                       (let dispatchInfo1 = dispatchInfo\<lparr>Duration := elapsed\<rparr> in
                        case outcome of
                          Inl err \<Rightarrow>
                            (Returns (None,
                               dispatchInfo1\<lparr>ResponseCode := 500,
                                 ResponseBody := ''dispatch error: '' @ err\<rparr>,
                               Some err), w2)
                        | Inr response \<Rightarrow>
                            (let dispatchInfo2 =
                                   dispatchInfo1\<lparr>ResponseCode := StatusCode response,
                                     ResponseHeader :=
                                       passThroughHeaders env (RespHeader response)\<rparr>;
                                 readFailed =
                                   (BodyReadErr response \<noteq> None \<and>
                                    BodyReadErr response \<noteq> Some io_EOF)
                             in if isFailure (StatusCode response)
                                then (if readFailed then (Panics nilDereference, w2)
                                      else (Returns (None,
                                              dispatchInfo2\<lparr>ResponseBody := Body response\<rparr>,
                                              Some (''unexpected HTTP response, expected 2xx, got ''
                                                    @ showInt (StatusCode response))), w2))
                                else if readFailed then (Panics nilDereference, w2)
                                else if readEncoding env (RespHeader response) (Body response)
                                        = EncodingUnknown
                                then (Returns (None, dispatchInfo2, None), w2)
                                else (Returns
                                        (Some (HTTPMessage (RespHeader response) (Body response)),
                                         dispatchInfo2, None), w2))))))"

subsection \<open>The dispatcher of \<open>src/unnamed/part_003\<close>\<close>

text \<open>Modelled from the spec: \<open>NewCloudEventRequest\<close>, \<open>WriteRequestWithAdditionalHeaders\<close>
  and the method \<open>SendWithRetries\<close> of the request are not among the sources. The request
  for the target is created (which may fail), the message is written to it and the
  caller's headers are merged onto it, and it is sent through the client the pool holds
  for the target, with the retry policy if there is one. The time a failed lookup of the
  client takes is left at zero.\<close>

definition NewCloudEventRequest :: "env \<Rightarrow> addressable \<Rightarrow> error option" where
  "NewCloudEventRequest env target = newRequestWithContext env (URL_String env (URL target))"

definition WriteRequestWithAdditionalHeaders ::
  "env \<Rightarrow> message \<Rightarrow> addressable \<Rightarrow> header \<Rightarrow> transformer list \<Rightarrow> error + http_request" where
  "WriteRequestWithAdditionalHeaders env message target additionalHeaders transformers =
     (case writeRequest env message transformers of
        Inl err \<Rightarrow> Inl err
      | Inr h \<Rightarrow>
          Inr \<lparr>ReqURL = URL_String env (URL target), ReqHeader = h ++ additionalHeaders,
               ReqMessage = message, ReqTransformers = transformers\<rparr>)"

definition Request_SendWithRetries ::
  "env \<Rightarrow> world \<Rightarrow> addressable \<Rightarrow> http_request \<Rightarrow> RetryConfig option \<Rightarrow>
     (duration \<times> (error + http_response)) \<times> world" where
  "Request_SendWithRetries env w target req retryConfig =
     (case newClient env w target of
        (Inl err, w1) \<Rightarrow> ((0, Inl err), w1)
      | (Inr client, w1) \<Rightarrow> DoWithRetries env w1 client req retryConfig)"

text \<open>\<open>executeRequest\<close>: the duration is recorded only where the send returns an
  error.\<close>

definition executeRequest_p3 ::
  "env \<Rightarrow> world \<Rightarrow> addressable \<Rightarrow> message \<Rightarrow> header \<Rightarrow> RetryConfig option \<Rightarrow>
     transformer list \<Rightarrow> (message option \<times> DispatchInfo \<times> error option) result \<times> world" where
  "executeRequest_p3 env w target message additionalHeaders retryConfig transformers0 =
     (let dispatchInfo =
            \<lparr>Duration = NoDuration, ResponseCode = NoResponse, ResponseHeader = Map.empty,
             ResponseBody = []\<rparr>
      in case NewCloudEventRequest env target of
           Some err \<Rightarrow> (Returns (None, dispatchInfo, Some err), w)
         | None \<Rightarrow>
             (let transformers =
                    (if spanRecording env
                     then transformers0 @ [PopulateSpan (URL_String env (URL target))]
                     else transformers0)
              in case WriteRequestWithAdditionalHeaders env message target additionalHeaders
                        transformers of
                   Inl err \<Rightarrow> (Returns (None, dispatchInfo, Some err), w)
                 | Inr req \<Rightarrow>
                     (case Request_SendWithRetries env w target req retryConfig of
                        ((dispatchTime, outcome), w2) \<Rightarrow>
                          (case outcome of
                             Inl err \<Rightarrow>
                               (Returns (None,
                                  dispatchInfo\<lparr>Duration := dispatchTime, ResponseCode := 500,
                                    ResponseBody := ''dispatch error: '' @ err\<rparr>,
                                  Some err), w2)
                           | Inr response \<Rightarrow>
                               (let dispatchInfo2 =
                                      dispatchInfo\<lparr>ResponseCode := StatusCode response,
                                        ResponseHeader :=
                                          passThroughHeaders env (RespHeader response)\<rparr>;
                                    readFailed =
                                      (BodyReadErr response \<noteq> None \<and>
                                       BodyReadErr response \<noteq> Some io_EOF)
                                in if isFailure (StatusCode response)
                                   then (if readFailed then (Panics nilDereference, w2)
                                         else (Returns (None,
                                                 dispatchInfo2\<lparr>ResponseBody := Body response\<rparr>,
                                                 Some (''unexpected HTTP response, expected 2xx, got ''
                                                       @ showInt (StatusCode response))), w2))
                                   else if readFailed then (Panics nilDereference, w2)
                                   else if readEncoding env (RespHeader response) (Body response)
                                           = EncodingUnknown
                                   then (Returns (None, dispatchInfo2, None), w2)
                                   else (Returns
                                           (Some (HTTPMessage (RespHeader response)
                                                    (Body response)),
                                            dispatchInfo2, None), w2))))))"

record senderConfig =
  reply :: "addressable option"
  deadLetterSink :: "addressable option"
  additionalHeaders :: header
  retryConfig :: "RetryConfig option"

subsection \<open>\<open>send\<close>\<close>

text \<open>
  \<open>send\<close> is one function in each copy. It is written here in blocks: the branch taken
  when the hop to the destination failed, the part that forwards the response to the
  reply target (from the test of \<open>responseMessage\<close> to the end of the function), and in
  it the branch taken when the hop to the reply target failed. The two copies have the
  same text for the last two, each with its own \<open>executeRequest\<close>, which is the parameter
  \<open>exe\<close>. Every block yields the result, the slice \<open>messagesToFinish\<close> and the state; the
  deferred function of \<open>send\<close> finishes the messages of the slice on every way out.
\<close>

type_synonym execute =
  "env \<Rightarrow> world \<Rightarrow> addressable \<Rightarrow> message \<Rightarrow> header \<Rightarrow> RetryConfig option \<Rightarrow>
     transformer list \<Rightarrow> (message option \<times> DispatchInfo \<times> error option) result \<times> world"

type_synonym send_block =
  "(DispatchInfo option \<times> error option) result \<times> message list \<times> world"

definition messageList :: "message option \<Rightarrow> message list" where
  "messageList m = (case m of None \<Rightarrow> [] | Some x \<Rightarrow> [x])"

text \<open>The hop to the reply target \<open>r\<close> returned the error \<open>e\<close>.\<close>

definition replyFailed ::
  "execute \<Rightarrow> env \<Rightarrow> world \<Rightarrow> message \<Rightarrow> addressable \<Rightarrow> addressable option \<Rightarrow>
     RetryConfig option \<Rightarrow> header \<Rightarrow> DispatchInfo \<Rightarrow> error \<Rightarrow> message list \<Rightarrow> send_block" where
  "replyFailed exe env w2 message r dls rc responseAdditionalHeaders replyInfo e msgs =
     (case dls of
        None \<Rightarrow>
          (Returns (Some replyInfo,
             Some (''failed to forward reply to '' @ URL_String env (URL r) @ '': '' @ e)),
           msgs, w2)
      | Some d \<Rightarrow>
          (case dispatchExecutionInfoTransformers env (URL r) replyInfo of
             Panics p \<Rightarrow> (Panics p, msgs, w2)
           | Returns dispatchTransformers \<Rightarrow>
               (case exe env w2 d message responseAdditionalHeaders rc
                       [Transformers dispatchTransformers] of
                  (Panics p, w3) \<Rightarrow> (Panics p, msgs, w3)
                | (Returns (deadLetterResponse, dlsInfo, deadLetterErr), w3) \<Rightarrow>
                    (case deadLetterErr of
                       Some de \<Rightarrow>
                         (Returns (Some dlsInfo,
                            Some (''failed to forward reply to '' @ URL_String env (URL r)
                                  @ '' ('' @ e
                                  @ '') and failed to send it to the dead letter sink ''
                                  @ URL_String env (URL d) @ '' ('' @ de @ '')'')),
                          msgs, w3)
                     | None \<Rightarrow>
                         (Returns (Some dlsInfo, None),
                          msgs @ messageList deadLetterResponse, w3)))))"

text \<open>From the test of \<open>responseMessage\<close> on: \<open>info0\<close> is \<open>dispatchExecutionInfo\<close> and
  \<open>msgs0\<close> is \<open>messagesToFinish\<close> at that point.\<close>

definition forwardReply ::
  "execute \<Rightarrow> env \<Rightarrow> world \<Rightarrow> message \<Rightarrow> addressable option \<Rightarrow> addressable option \<Rightarrow>
     RetryConfig option \<Rightarrow> message option \<Rightarrow> header \<Rightarrow> DispatchInfo option \<Rightarrow>
     message list \<Rightarrow> send_block" where
  "forwardReply exe env w1 message replyTarget dls rc responseMessage
       responseAdditionalHeaders info0 msgs0 =
     (case responseMessage of
        None \<Rightarrow> (Returns (info0, None), msgs0, w1)
      | Some rm \<Rightarrow>
          (case replyTarget of
             None \<Rightarrow> (Returns (info0, None), msgs0 @ [rm], w1)
           | Some r \<Rightarrow>
               (case exe env w1 r rm responseAdditionalHeaders rc [] of
                  (Panics p, w2) \<Rightarrow> (Panics p, msgs0 @ [rm], w2)
                | (Returns (responseResponseMessage, replyInfo, replyErr), w2) \<Rightarrow>
                    (case replyErr of
                       Some e \<Rightarrow>
                         replyFailed exe env w2 message r dls rc responseAdditionalHeaders
                           replyInfo e (msgs0 @ [rm])
                     | None \<Rightarrow>
                         (Returns (Some replyInfo, None),
                          msgs0 @ [rm] @ messageList responseResponseMessage, w2)))))"

text \<open>The hop to the destination returned the error \<open>e\<close>, in \<open>src/unnamed/part_005\<close>:
  the transformers are passed as one transformer.\<close>

definition destinationFailed_p5 ::
  "env \<Rightarrow> world \<Rightarrow> message \<Rightarrow> addressable \<Rightarrow> addressable option \<Rightarrow> senderConfig \<Rightarrow>
     DispatchInfo \<Rightarrow> error \<Rightarrow> send_block" where
  "destinationFailed_p5 env w1 message destination dls config dispatchExecutionInfo e =
     (case dls of
        None \<Rightarrow>
          (Returns (Some dispatchExecutionInfo,
             Some (''unable to complete request to '' @ URL_String env (URL destination)
                   @ '': '' @ e)),
           [message], w1)
      | Some d \<Rightarrow>
          (case dispatchExecutionInfoTransformers env (URL destination)
                  dispatchExecutionInfo of
             Panics p \<Rightarrow> (Panics p, [message], w1)
           | Returns dispatchTransformers \<Rightarrow>
               (case executeRequest_p5 env w1 d message (additionalHeaders config)
                       (retryConfig config) [Transformers dispatchTransformers] of
                  (Panics p, w2) \<Rightarrow> (Panics p, [message], w2)
                | (Returns (deadLetterResponse, dlsInfo, deadLetterErr), w2) \<Rightarrow>
                    (case deadLetterErr of
                       Some de \<Rightarrow>
                         (Returns (Some dlsInfo,
                            Some (''unable to complete request to either ''
                                  @ URL_String env (URL destination) @ '' ('' @ e
                                  @ '') or '' @ URL_String env (URL d) @ '' ('' @ de
                                  @ '')'')),
                          [message], w2)
                     | None \<Rightarrow>
                         (Returns (Some dlsInfo, None),
                          [message] @ messageList deadLetterResponse, w2)))))"

text \<open>The same branch in \<open>src/unnamed/part_003\<close>: the transformers are passed one by
  one.\<close>

definition destinationFailed_p3 ::
  "env \<Rightarrow> world \<Rightarrow> message \<Rightarrow> addressable \<Rightarrow> addressable option \<Rightarrow> senderConfig \<Rightarrow>
     DispatchInfo \<Rightarrow> error \<Rightarrow> send_block" where
  "destinationFailed_p3 env w1 message destination dls config dispatchExecutionInfo e =
     (case dls of
        None \<Rightarrow>
          (Returns (Some dispatchExecutionInfo,
             Some (''unable to complete request to '' @ URL_String env (URL destination)
                   @ '': '' @ e)),
           [message], w1)
      | Some d \<Rightarrow>
          (case dispatchExecutionInfoTransformers env (URL destination)
                  dispatchExecutionInfo of
             Panics p \<Rightarrow> (Panics p, [message], w1)
           | Returns dispatchTransformers \<Rightarrow>
               (case executeRequest_p3 env w1 d message (additionalHeaders config)
                       (retryConfig config) dispatchTransformers of
                  (Panics p, w2) \<Rightarrow> (Panics p, [message], w2)
                | (Returns (deadLetterResponse, dlsInfo, deadLetterErr), w2) \<Rightarrow>
                    (case deadLetterErr of
                       Some de \<Rightarrow>
                         (Returns (Some dlsInfo,
                            Some (''unable to complete request to either ''
                                  @ URL_String env (URL destination) @ '' ('' @ e
                                  @ '') or '' @ URL_String env (URL d) @ '' ('' @ de
                                  @ '')'')),
                          [message], w2)
                     | None \<Rightarrow>
                         (Returns (Some dlsInfo, None),
                          [message] @ messageList deadLetterResponse, w2)))))"

text \<open>The header of \<open>eventingapis.KnNamespaceHeader\<close>, where the caller's headers have
  it, is set on the headers \<open>h\<close> that go on to the reply target.\<close>

definition withNamespace :: "env \<Rightarrow> header \<Rightarrow> header \<Rightarrow> header" where
  "withNamespace env callerHeaders h =
     (if Header_Get callerHeaders (knNamespaceHeader env) \<noteq> []
      then Header_Set h (knNamespaceHeader env)
             (Header_Get callerHeaders (knNamespaceHeader env))
      else h)"

text \<open>
  \<open>send\<close> of \<open>src/unnamed/part_005\<close>. \<open>responseAdditionalHeaders\<close> is the map of
  \<open>dispatchExecutionInfo.ResponseHeader\<close> itself, so the header set on it shows in the
  \<open>DispatchInfo\<close> that is returned.
\<close>

definition send_p5 ::
  "env \<Rightarrow> world \<Rightarrow> message \<Rightarrow> addressable \<Rightarrow> senderConfig \<Rightarrow>
     (DispatchInfo option \<times> error option) result \<times> world" where
  "send_p5 env w message destination0 config =
     (case (if URL destination0 = None
            then (Returns (Some zeroDispatchInfo,
                    Some ''can not dispatch message to nil destination.URL''), [message], w)
            else
              (let destination = destination0\<lparr>URL := sanitizeURL (URL destination0)\<rparr>;
                   replyTarget = sanitizeAddressable (reply config);
                   dls = sanitizeAddressable (deadLetterSink config);
                   additionalHeadersForDestination =
                     Header_Set (additionalHeaders config) ''Prefer'' ''reply''
               in case executeRequest_p5 env w destination message
                         additionalHeadersForDestination (retryConfig config) [] of
                    (Panics p, w1) \<Rightarrow> (Panics p, [message], w1)
                  | (Returns (responseMessage, dispatchExecutionInfo, err), w1) \<Rightarrow>
                      (case err of
                         Some e \<Rightarrow>
                           destinationFailed_p5 env w1 message destination dls config
                             dispatchExecutionInfo e
                       | None \<Rightarrow>
                           (let responseAdditionalHeaders =
                                  withNamespace env (additionalHeaders config)
                                    (ResponseHeader dispatchExecutionInfo)
                            in forwardReply executeRequest_p5 env w1 message replyTarget dls
                                 (retryConfig config) responseMessage responseAdditionalHeaders
                                 (Some (dispatchExecutionInfo
                                          \<lparr>ResponseHeader := responseAdditionalHeaders\<rparr>))
                                 [message])))) of
        (res, messagesToFinish, w') \<Rightarrow>
          (res, w'\<lparr>finished := finished w' @ messagesToFinish\<rparr>))"

text \<open>
  \<open>send\<close> of \<open>src/unnamed/part_003\<close>. Without a destination URL the original message
  takes the place of the destination's response, and the caller's headers the place of
  the response headers.
\<close>

definition send_p3 ::
  "env \<Rightarrow> world \<Rightarrow> message \<Rightarrow> addressable \<Rightarrow> senderConfig \<Rightarrow>
     (DispatchInfo option \<times> error option) result \<times> world" where
  "send_p3 env w message destination0 config =
     (case (let destination = destination0\<lparr>URL := sanitizeURL (URL destination0)\<rparr>;
                replyTarget = sanitizeAddressable (reply config);
                dls = sanitizeAddressable (deadLetterSink config)
            in if URL destination \<noteq> None
               then
                 (let additionalHeadersForDestination =
                        Header_Set (additionalHeaders config) ''Prefer'' ''reply''
                  in case executeRequest_p3 env w destination message
                            additionalHeadersForDestination (retryConfig config) [] of
                       (Panics p, w1) \<Rightarrow> (Panics p, [message], w1)
                     | (Returns (responseMessage, dispatchExecutionInfo, err), w1) \<Rightarrow>
                         (case err of
                            Some e \<Rightarrow>
                              destinationFailed_p3 env w1 message destination dls config
                                dispatchExecutionInfo e
                          | None \<Rightarrow>
                              (let responseAdditionalHeaders =
                                     withNamespace env (additionalHeaders config)
                                       (ResponseHeader dispatchExecutionInfo)
                               in forwardReply executeRequest_p3 env w1 message replyTarget dls
                                    (retryConfig config) responseMessage
                                    responseAdditionalHeaders
                                    (Some (dispatchExecutionInfo
                                             \<lparr>ResponseHeader := responseAdditionalHeaders\<rparr>))
                                    [message])))
               else
                 forwardReply executeRequest_p3 env w message replyTarget dls
                   (retryConfig config) (Some message)
                   (withNamespace env (additionalHeaders config) (additionalHeaders config))
                   None []) of
        (res, messagesToFinish, w') \<Rightarrow>
          (res, w'\<lparr>finished := finished w' @ messagesToFinish\<rparr>))"

section \<open>Sample inputs\<close>

text \<open>A concrete environment, parametrised by the outcome of \<open>Do\<close>, and concrete
  values on which the theorems below are instantiated.\<close>

definition sampleEnv ::
  "(exchange list \<Rightarrow> exchange \<Rightarrow> duration \<times> (error + http_response)) \<Rightarrow> env" where
  "sampleEnv rt =
     \<lparr>urlString = (\<lambda>u. Scheme u @ ''://'' @ Host u @ Path u),
      systemCertPool = Inr [''system-root''],
      parseCertsFromPEM = (\<lambda>pem. if pem = ''GOOD PEM'' then [''ca-cert''] else []),
      defaultTransport =
        \<lparr>TLSRootCAs = None, TransportMaxIdleConns = 100, TransportMaxIdleConnsPerHost = 0\<rparr>,
      httpDateUntil = (\<lambda>s. None),
      spanRecording = False,
      newRequestWithContext = (\<lambda>u. None),
      writeRequest = (\<lambda>m ts. Inr [''Ce-Id'' \<mapsto> [''1'']]),
      fromRequest = (\<lambda>r. None),
      roundTrip = rt,
      passThroughHeaders = (\<lambda>h. h),
      readEncoding =
        (\<lambda>h b. if h ''Ce-Specversion'' = None then EncodingUnknown else EncodingBinary),
      brokerFilterHost = ''broker-filter.knative-eventing.svc.cluster.local'',
      unmarshalErrExtensionInfo = (\<lambda>b. None),
      knativeErrorDataExtensionMaxLength = 1024,
      stdEncode = (\<lambda>b. ''base64:'' @ b),
      knNamespaceHeader = ''Kn-Namespace''\<rparr>"

definition noNetwork :: "exchange list \<Rightarrow> exchange \<Rightarrow> duration \<times> (error + http_response)" where
  "noNetwork lg x = (0, Inl ''connection refused'')"

definition sampleURL :: "string \<Rightarrow> url" where
  "sampleURL h = zeroURL\<lparr>Scheme := ''http'', Host := h, Path := ''/''\<rparr>"

definition sampleAddressable :: "string \<Rightarrow> addressable" where
  "sampleAddressable h =
     \<lparr>Name = None, URL = Some (sampleURL h), CACerts = None, Audience = None\<rparr>"

definition sampleClient :: http_client where
  "sampleClient =
     \<lparr>Base = \<lparr>TLSRootCAs = None, TransportMaxIdleConns = 100, TransportMaxIdleConnsPerHost = 0\<rparr>,
      Timeout = 0\<rparr>"

definition emptyWorld :: world where
  "emptyWorld =
     \<lparr>clients = Map.empty, connectionArgs = None, oldClientConnectionArgs = None,
      stdout = [], sent = [], finished = []\<rparr>"

definition cachedWorld :: world where
  "cachedWorld = emptyWorld\<lparr>clients := [''http://sink/'' \<mapsto> sampleClient]\<rparr>"

definition sampleResponse :: "int \<Rightarrow> header \<Rightarrow> string \<Rightarrow> http_response" where
  "sampleResponse code h b =
     \<lparr>Status = [], StatusCode = code, RespHeader = h, Body = b, BodyReadErr = None\<rparr>"

definition sampleRetryConfig :: "duration \<Rightarrow> duration option \<Rightarrow> RetryConfig" where
  "sampleRetryConfig delay ceiling =
     \<lparr>RetryMax = 3, CheckRetry = (\<lambda>r e. (e \<noteq> None, None)), Backoff = (\<lambda>n r. delay),
      RequestTimeout = 0, RetryAfterMaxDuration = ceiling\<rparr>"

text \<open>A response with status 200 and no event in it, whose body could not be read to
  its end, and a response with status 500 and a body of 769 bytes.\<close>

definition unreadableResponse :: http_response where
  "unreadableResponse =
     \<lparr>Status = ''200 OK'', StatusCode = 200, RespHeader = Map.empty, Body = [],
      BodyReadErr = Some ''unexpected EOF''\<rparr>"

definition largeFailure :: http_response where
  "largeFailure = sampleResponse 500 Map.empty (replicate 769 (CHR ''x''))"

text \<open>A network that answers by the URL of the request, and refuses the connection to
  any other URL.\<close>

definition sampleNet ::
  "(string \<rightharpoonup> http_response) \<Rightarrow> exchange list \<Rightarrow> exchange \<Rightarrow>
     duration \<times> (error + http_response)" where
  "sampleNet answers lg x =
     (case answers (ReqURL (ExRequest x)) of
        None \<Rightarrow> (3, Inl ''connection refused'')
      | Some r \<Rightarrow> (7, Inr r))"

text \<open>Environments in which one URL answers, or two.\<close>

definition answeringEnv :: "string \<Rightarrow> http_response \<Rightarrow> env" where
  "answeringEnv u r = sampleEnv (sampleNet [u \<mapsto> r])"

definition largeFailureEnv :: env where
  "largeFailureEnv =
     sampleEnv (sampleNet [''http://sink/'' \<mapsto> largeFailure,
                           ''http://dls/'' \<mapsto> sampleResponse 202 Map.empty []])"

definition sampleConfig :: "addressable option \<Rightarrow> addressable option \<Rightarrow> senderConfig" where
  "sampleConfig r d =
     \<lparr>reply = r, deadLetterSink = d, additionalHeaders = [''X-Request-Id'' \<mapsto> [''42'']],
      retryConfig = None\<rparr>"

definition sampleMessage :: message where
  "sampleMessage = EventMessage ''event-1''"

section \<open>Properties of URL sanitization\<close>

text \<open>
  C9. Sanitizing a nil URL returns nil; a URL whose scheme is \<open>http\<close> or \<open>https\<close> is
  returned unchanged; any other URL is rewritten to the URL with scheme \<open>http\<close>, the
  original host and path \<open>/\<close> (every other field is the zero value).
\<close>

theorem sanitizeURL_cases:
  "sanitizeURL None = None \<and>
   (Scheme v = ''http'' \<or> Scheme v = ''https'' \<longrightarrow> sanitizeURL (Some v) = Some v) \<and>
   (Scheme v \<noteq> ''http'' \<and> Scheme v \<noteq> ''https'' \<longrightarrow>
      (\<exists>r. sanitizeURL (Some v) = Some r \<and> Scheme r = ''http'' \<and> Host r = Host v \<and>
           Path r = ''/'' \<and> r = zeroURL\<lparr>Scheme := ''http'', Host := Host v, Path := ''/''\<rparr>))"
  by (simp add: sanitizeURL_def)

theorem sanitizeURL_cases_witness:
  "sanitizeURL (Some (zeroURL\<lparr>Scheme := ''https'', Host := ''sink.example'', Path := ''/in''\<rparr>))
     = Some (zeroURL\<lparr>Scheme := ''https'', Host := ''sink.example'', Path := ''/in''\<rparr>) \<and>
   sanitizeURL (Some (zeroURL\<lparr>Host := ''sink.example'', Path := ''/in'', RawQuery := ''a=1''\<rparr>))
     = Some (zeroURL\<lparr>Scheme := ''http'', Host := ''sink.example'', Path := ''/''\<rparr>)"
  using sanitizeURL_cases [of "zeroURL\<lparr>Scheme := ''https'', Host := ''sink.example'', Path := ''/in''\<rparr>"]
        sanitizeURL_cases [of "zeroURL\<lparr>Host := ''sink.example'', Path := ''/in'', RawQuery := ''a=1''\<rparr>"]
  by (simp add: zeroURL_def)

section \<open>Properties of the client pool\<close>

text \<open>
  C6. For an addressable whose CA certificates are present (non-nil, non-empty) and yield no
  certificate when parsed, \<open>createNewClient\<close> returns an error. The same holds where
  the client is created for the cache: \<open>getClientForAddressable\<close> on a destination not
  yet cached returns the wrapped error and caches nothing, and the upsert handler
  \<open>AddOrUpdateAddressableHandler\<close> prints the error and leaves the cache as it was. Where
  the creation succeeds, the upsert handler replaces the cached client of the
  destination's URL string by the new one.
\<close>

theorem createNewClient_bad_CACerts:
  assumes "CACerts a = Some pem" and "pem \<noteq> []" and "parseCertsFromPEM env pem = []"
  shows "\<exists>err. createNewClient env w a = Inl err \<and>
           AddOrUpdateAddressableHandler env w a =
             w\<lparr>stdout := stdout w @ [''failed to create new client: '' @ err]\<rparr> \<and>
           (clients w (URL_String env (URL a)) = None \<longrightarrow>
              getClientForAddressable env w a =
                (Inl (''failed to create new client for addressable: '' @ err), w)) \<and>
           (createNewClient env w b = Inr c \<longrightarrow>
              AddOrUpdateAddressableHandler env w b =
                w\<lparr>clients := (clients w)(URL_String env (URL b) \<mapsto> c)\<rparr>)"
proof (cases "systemCertPool env")
  case (Inl e)
  with assms show ?thesis
    by (simp add: createNewClient_def AddOrUpdateAddressableHandler_def
        getClientForAddressable_def)
next
  case (Inr pool)
  with assms show ?thesis
    by (simp add: createNewClient_def AddOrUpdateAddressableHandler_def
        getClientForAddressable_def)
qed

theorem createNewClient_bad_CACerts_witness:
  "createNewClient (sampleEnv noNetwork) cachedWorld
       ((sampleAddressable ''sink'')\<lparr>CACerts := Some ''BAD PEM''\<rparr>)
     = Inl ''failed to append CA certs from PEM to cert pool'' \<and>
   clients (AddOrUpdateAddressableHandler (sampleEnv noNetwork) cachedWorld
       ((sampleAddressable ''sink'')\<lparr>CACerts := Some ''BAD PEM''\<rparr>)) ''http://sink/''
     = Some sampleClient \<and>
   stdout (AddOrUpdateAddressableHandler (sampleEnv noNetwork) cachedWorld
       ((sampleAddressable ''sink'')\<lparr>CACerts := Some ''BAD PEM''\<rparr>))
     = [''failed to create new client: failed to append CA certs from PEM to cert pool''] \<and>
   clients (AddOrUpdateAddressableHandler (sampleEnv noNetwork) cachedWorld
       ((sampleAddressable ''sink'')\<lparr>CACerts := Some ''GOOD PEM''\<rparr>)) ''http://sink/''
     = Some (sampleClient\<lparr>Base := (Base sampleClient)\<lparr>TLSRootCAs :=
          Some [''system-root'', ''ca-cert'']\<rparr>\<rparr>)"
  using createNewClient_bad_CACerts
    [of "(sampleAddressable ''sink'')\<lparr>CACerts := Some ''BAD PEM''\<rparr>" "''BAD PEM''"
        "sampleEnv noNetwork" cachedWorld
        "(sampleAddressable ''sink'')\<lparr>CACerts := Some ''GOOD PEM''\<rparr>"
        "sampleClient\<lparr>Base := (Base sampleClient)\<lparr>TLSRootCAs :=
          Some [''system-root'', ''ca-cert'']\<rparr>\<rparr>"]
  by (simp add: createNewClient_def sampleEnv_def sampleAddressable_def sampleURL_def
      zeroURL_def cachedWorld_def emptyWorld_def sampleClient_def URL_String_def
      configureTransport_def)

text \<open>
  C10, as the code has it. The cache is keyed by the addressable's URL string alone: where
  that key has a cached client, \<open>getClientForAddressable\<close> returns it and changes
  nothing, whatever the addressable's CA certificates are. A lookup never changes or
  removes the client of any key; the upsert and the delete handler leave the client of
  every other key as it was; \<open>ConfigureConnectionArgs\<close> keeps the whole cache when the
  connection arguments are the same and drops every entry otherwise.
\<close>

theorem client_cache_changes:
  "(clients w (URL_String env (URL a)) = Some c \<longrightarrow>
      getClientForAddressable env w (a\<lparr>CACerts := certs\<rparr>) = (Inr c, w)) \<and>
   (clients w k = Some c \<longrightarrow>
      clients (snd (getClientForAddressable env w a)) k = Some c) \<and>
   (clients w k = Some c \<and> k \<noteq> URL_String env (URL a) \<longrightarrow>
      clients (AddOrUpdateAddressableHandler env w a) k = Some c \<and>
      clients (DeleteAddressableHandler env w a) k = Some c) \<and>
   clients (DeleteAddressableHandler env w a) (URL_String env (URL a)) = None \<and>
   clients (ConfigureConnectionArgs w ca) =
     (if (\<exists>cur new. connectionArgs w = Some cur \<and> ca = Some new \<and>
            MaxIdleConns new = MaxIdleConns cur \<and>
            MaxIdleConnsPerHost new = MaxIdleConnsPerHost cur)
      then clients w else Map.empty)"
  by (auto simp: getClientForAddressable_def AddOrUpdateAddressableHandler_def
      DeleteAddressableHandler_def ConfigureConnectionArgs_def
      configureConnectionArgsOldClient_def Let_def
      split: option.splits sum.splits)

theorem client_cache_changes_witness:
  "getClientForAddressable (sampleEnv noNetwork) cachedWorld
       ((sampleAddressable ''sink'')\<lparr>CACerts := Some ''GOOD PEM''\<rparr>)
     = (Inr sampleClient, cachedWorld) \<and>
   clients (AddOrUpdateAddressableHandler (sampleEnv noNetwork) cachedWorld
       (sampleAddressable ''other'')) ''http://sink/'' = Some sampleClient \<and>
   clients (DeleteAddressableHandler (sampleEnv noNetwork) cachedWorld
       (sampleAddressable ''other'')) ''http://sink/'' = Some sampleClient \<and>
   clients (DeleteAddressableHandler (sampleEnv noNetwork) cachedWorld
       (sampleAddressable ''sink'')) ''http://sink/'' = None"
  using client_cache_changes
    [of cachedWorld "sampleEnv noNetwork" "sampleAddressable ''sink''" sampleClient
        "Some ''GOOD PEM''" "''http://sink/''"]
    client_cache_changes
    [of cachedWorld "sampleEnv noNetwork" "sampleAddressable ''other''" sampleClient
        None "''http://sink/''"]
  by (simp add: sampleEnv_def sampleAddressable_def sampleURL_def zeroURL_def
      cachedWorld_def emptyWorld_def URL_String_def)

text \<open>
  C10 as stated fails: \<open>ConfigureConnectionArgs\<close>, which is neither the upsert nor the
  delete handler, removes the cached client of a destination when the connection
  arguments change.
\<close>

theorem client_cache_reset_counterexample:
  "clients cachedWorld ''http://sink/'' = Some sampleClient \<and>
   clients (ConfigureConnectionArgs cachedWorld
       (Some \<lparr>MaxIdleConns = 10, MaxIdleConnsPerHost = 5\<rparr>)) ''http://sink/'' = None"
  by (simp add: ConfigureConnectionArgs_def configureConnectionArgsOldClient_def
      cachedWorld_def emptyWorld_def)

section \<open>Properties of the backoff\<close>

text \<open>
  C3. With a positive ceiling \<open>RetryAfterMaxDuration\<close>, the backoff of every attempt is
  the larger of the configured backoff and the Retry-After delay. The delay is that of the
  response's header (\<open>parseRetryAfterDuration\<close>) only when the status is 429 or 503, and
  zero otherwise; a delay above the ceiling is replaced by the ceiling, a delay not above
  it is taken as it is.
\<close>

theorem generateBackoffFn_positive_ceiling:
  assumes "RetryAfterMaxDuration config = Some ceiling" and "0 < ceiling"
  shows "generateBackoffFn env config lo hi n resp =
           max (Backoff config n resp)
             (case resp of
                None \<Rightarrow> 0
              | Some r \<Rightarrow>
                  if StatusCode r = 429 \<or> StatusCode r = 503
                  then min ceiling (parseRetryAfterDuration env resp) else 0) \<and>
         (\<forall>r. resp = Some r \<and> (StatusCode r = 429 \<or> StatusCode r = 503) \<and>
              ceiling < parseRetryAfterDuration env resp \<longrightarrow>
              generateBackoffFn env config lo hi n resp = max (Backoff config n resp) ceiling) \<and>
         (\<forall>r. resp = Some r \<and> (StatusCode r = 429 \<or> StatusCode r = 503) \<and>
              parseRetryAfterDuration env resp \<le> ceiling \<longrightarrow>
              generateBackoffFn env config lo hi n resp =
                max (Backoff config n resp) (parseRetryAfterDuration env resp))"
  using assms
  by (auto simp: generateBackoffFn_def Let_def max_def min_def split: option.splits)

theorem generateBackoffFn_positive_ceiling_witness:
  "generateBackoffFn (sampleEnv noNetwork) (sampleRetryConfig (5 * Second) (Some (60 * Second)))
       defaultRetryWaitMin defaultRetryWaitMax 1
       (Some (sampleResponse 429 [''Retry-After'' \<mapsto> [''120'']] [])) = 60 * Second \<and>
   generateBackoffFn (sampleEnv noNetwork) (sampleRetryConfig (5 * Second) (Some (60 * Second)))
       defaultRetryWaitMin defaultRetryWaitMax 1
       (Some (sampleResponse 503 [''Retry-After'' \<mapsto> [''20'']] [])) = 20 * Second \<and>
   generateBackoffFn (sampleEnv noNetwork) (sampleRetryConfig (5 * Second) (Some (60 * Second)))
       defaultRetryWaitMin defaultRetryWaitMax 1
       (Some (sampleResponse 500 [''Retry-After'' \<mapsto> [''20'']] [])) = 5 * Second"
  using generateBackoffFn_positive_ceiling
    [of "sampleRetryConfig (5 * Second) (Some (60 * Second))" "60 * Second"
        "sampleEnv noNetwork" defaultRetryWaitMin defaultRetryWaitMax 1
        "Some (sampleResponse 429 [''Retry-After'' \<mapsto> [''120'']] [])"]
    generateBackoffFn_positive_ceiling
    [of "sampleRetryConfig (5 * Second) (Some (60 * Second))" "60 * Second"
        "sampleEnv noNetwork" defaultRetryWaitMin defaultRetryWaitMax 1
        "Some (sampleResponse 503 [''Retry-After'' \<mapsto> [''20'']] [])"]
    generateBackoffFn_positive_ceiling
    [of "sampleRetryConfig (5 * Second) (Some (60 * Second))" "60 * Second"
        "sampleEnv noNetwork" defaultRetryWaitMin defaultRetryWaitMax 1
        "Some (sampleResponse 500 [''Retry-After'' \<mapsto> [''20'']] [])"]
  by (simp add: sampleRetryConfig_def sampleResponse_def Second_def
      parseRetryAfterDuration_def ParseInt_def digitValue_def Header_Get_def
      RetryAfterHeader_def int64_def)

text \<open>
  C4, as the code has it. With \<open>RetryAfterMaxDuration\<close> nil the backoff of every attempt
  is the larger of zero and the configured backoff, whatever the response. With
  \<open>RetryAfterMaxDuration\<close> nil or zero and a configured backoff that is not negative, the
  backoff is the configured backoff alone, also on 429 and 503 responses with a
  Retry-After header.
\<close>

theorem generateBackoffFn_no_ceiling:
  "(RetryAfterMaxDuration config = None \<longrightarrow>
      generateBackoffFn env config lo hi n resp = max 0 (Backoff config n resp)) \<and>
   ((RetryAfterMaxDuration config = None \<or> RetryAfterMaxDuration config = Some 0) \<and>
    0 \<le> Backoff config n resp \<longrightarrow>
      generateBackoffFn env config lo hi n resp = Backoff config n resp)"
  by (auto simp: generateBackoffFn_def Let_def max_def split: option.splits)

theorem generateBackoffFn_no_ceiling_witness:
  "generateBackoffFn (sampleEnv noNetwork) (sampleRetryConfig (5 * Second) None)
       defaultRetryWaitMin defaultRetryWaitMax 1
       (Some (sampleResponse 429 [''Retry-After'' \<mapsto> [''120'']] [])) = 5 * Second \<and>
   generateBackoffFn (sampleEnv noNetwork) (sampleRetryConfig (5 * Second) (Some 0))
       defaultRetryWaitMin defaultRetryWaitMax 1
       (Some (sampleResponse 503 [''Retry-After'' \<mapsto> [''120'']] [])) = 5 * Second"
  using generateBackoffFn_no_ceiling
    [of "sampleRetryConfig (5 * Second) None" "sampleEnv noNetwork"
        defaultRetryWaitMin defaultRetryWaitMax 1
        "Some (sampleResponse 429 [''Retry-After'' \<mapsto> [''120'']] [])"]
    generateBackoffFn_no_ceiling
    [of "sampleRetryConfig (5 * Second) (Some 0)" "sampleEnv noNetwork"
        defaultRetryWaitMin defaultRetryWaitMax 1
        "Some (sampleResponse 503 [''Retry-After'' \<mapsto> [''120'']] [])"]
  by (simp add: sampleRetryConfig_def Second_def)

text \<open>
  C4 as stated fails where the configured backoff is negative: with
  \<open>RetryAfterMaxDuration\<close> nil and a configured backoff of -1 the backoff is 0.
\<close>

theorem generateBackoffFn_negative_backoff_counterexample:
  "RetryAfterMaxDuration (sampleRetryConfig (- 1) None) = None \<and>
   Backoff (sampleRetryConfig (- 1) None) 1 None = - 1 \<and>
   generateBackoffFn (sampleEnv noNetwork) (sampleRetryConfig (- 1) None)
       defaultRetryWaitMin defaultRetryWaitMax 1 None = 0"
  by (simp add: generateBackoffFn_def sampleRetryConfig_def)

section \<open>Lemmas about the dispatch pipeline\<close>

text \<open>The definitions that evaluate the pipeline and the sample inputs.\<close>

lemmas sample_defs = answeringEnv_def largeFailureEnv_def sampleEnv_def sampleNet_def sampleConfig_def sampleMessage_def sampleAddressable_def
  sampleURL_def zeroURL_def emptyWorld_def sampleResponse_def URL_String_def noNetwork_def

lemmas pipeline_defs = send_p5_def send_p3_def forwardReply_def replyFailed_def destinationFailed_p5_def
  destinationFailed_p3_def withNamespace_def messageList_def
  executeRequest_p5_def executeRequest_p3_def createRequest_def newClient_def
  NewCloudEventRequest_def WriteRequestWithAdditionalHeaders_def Request_SendWithRetries_def
  getClientForAddressable_def createNewClient_def
  DoWithRetries_def Do_def configureTransport_def Let_def NoDuration_def NoResponse_def
  sanitizeURL_def sanitizeAddressable_def Header_Set_def Header_Get_def isFailure_def
  dispatchExecutionInfoTransformers_def EncodedLen_def

subsection \<open>The calls of \<open>Do\<close>\<close>

text \<open>Looking a client up sends nothing. A call of \<open>executeRequest\<close> adds at most one call
  of \<open>Do\<close>, for the URL of its target, with its message and with every header it was
  given. Every block of \<open>send\<close> only adds to the calls made before it.\<close>

lemma getClientForAddressable_sent:
  "sent (snd (getClientForAddressable env w a)) = sent w"
  by (simp add: getClientForAddressable_def Let_def split: option.splits sum.splits)

lemma newClient_sent: "newClient env w a = (r, w1) \<Longrightarrow> sent w1 = sent w"
  using getClientForAddressable_sent [of env w a]
  by (auto simp: newClient_def split: prod.splits sum.splits)

lemma DoWithRetries_sent:
  "DoWithRetries env w c req rc = (r, w2) \<Longrightarrow>
     sent w2 = sent w \<or> (\<exists>x. sent w2 = sent w @ [x] \<and> ExRequest x = req)"
  by (auto simp: DoWithRetries_def Do_def Let_def split: option.splits prod.splits)

lemma createRequest_header:
  "createRequest env m t h ts = Inr req \<Longrightarrow>
     ReqURL req = URL_String env (URL t) \<and> ReqMessage req = m \<and> ReqTransformers req = ts \<and>
     (\<forall>k v. h k = Some v \<longrightarrow> ReqHeader req k = Some v)"
  by (auto simp: createRequest_def map_add_def split: option.splits sum.splits)

lemma executeRequest_p5_sent:
  "executeRequest_p5 env w t m h rc ts = (r, w') \<Longrightarrow>
     sent w' = sent w \<or>
     (\<exists>x. sent w' = sent w @ [x] \<and> ReqURL (ExRequest x) = URL_String env (URL t) \<and>
          ReqMessage (ExRequest x) = m \<and>
          (\<forall>k v. h k = Some v \<longrightarrow> ReqHeader (ExRequest x) k = Some v))"
  apply (simp add: executeRequest_p5_def Let_def split: sum.splits prod.splits if_splits)
  apply (auto dest!: newClient_sent DoWithRetries_sent createRequest_header)
  done

lemma executeRequest_p5_sent_app:
  "executeRequest_p5 env w t m h rc ts = (r, w') \<Longrightarrow> \<exists>xs. sent w' = sent w @ xs"
  by (drule executeRequest_p5_sent) auto

lemma replyFailed_sent:
  assumes exe: "\<And>w t m h ts r w'. exe env w t m h rc ts = (r, w') \<Longrightarrow> \<exists>xs. sent w' = sent w @ xs"
    and "replyFailed exe env w2 message r dls rc hs replyInfo e msgs = (res, ms, w')"
  shows "\<exists>ys. sent w' = sent w2 @ ys"
  using assms(2)
  by (auto simp: replyFailed_def split: option.splits result.splits prod.splits dest: exe)

lemma forwardReply_sent:
  assumes exe: "\<And>w t m h ts r w'. exe env w t m h rc ts = (r, w') \<Longrightarrow> \<exists>xs. sent w' = sent w @ xs"
    and "forwardReply exe env w1 message replyTarget dls rc responseMessage hs info0 msgs0 = (res, ms, w')"
  shows "\<exists>ys. sent w' = sent w1 @ ys"
proof -
  have rf: "\<And>w2 message r dls hs replyInfo e msgs res ms w'.
      replyFailed exe env w2 message r dls rc hs replyInfo e msgs = (res, ms, w') \<Longrightarrow>
      \<exists>ys. sent w' = sent w2 @ ys"
    by (rule replyFailed_sent [of exe env rc]) (erule exe)
  show ?thesis
    using assms(2)
    by (fastforce simp: forwardReply_def split: option.splits result.splits prod.splits
        dest: exe rf)
qed

lemma destinationFailed_p5_sent:
  assumes "destinationFailed_p5 env w1 message destination dls config info e = (res, ms, w')"
  shows "\<exists>ys. sent w' = sent w1 @ ys"
  using assms
  by (auto simp: destinationFailed_p5_def split: option.splits result.splits prod.splits
      dest: executeRequest_p5_sent_app)

lemma send_p5_sent_prefix:
  assumes "URL destination \<noteq> None"
  shows "\<exists>ys. sent (snd (send_p5 env w message destination config)) =
           sent (snd (executeRequest_p5 env w (destination\<lparr>URL := sanitizeURL (URL destination)\<rparr>)
                  message (Header_Set (additionalHeaders config) ''Prefer'' ''reply'')
                  (retryConfig config) [])) @ ys"
proof -
  have fr: "\<And>w1 message replyTarget dls responseMessage hs info0 msgs0 res ms w'.
      forwardReply executeRequest_p5 env w1 message replyTarget dls (retryConfig config) responseMessage hs info0 msgs0 = (res, ms, w') \<Longrightarrow>
      \<exists>ys. sent w' = sent w1 @ ys"
    by (rule forwardReply_sent [of executeRequest_p5 env "retryConfig config"])
       (erule executeRequest_p5_sent_app)
  show ?thesis
    using assms
    by (fastforce simp: send_p5_def Let_def split: option.splits result.splits prod.splits
        dest: fr destinationFailed_p5_sent)
qed

lemma WriteRequestWithAdditionalHeaders_header:
  "WriteRequestWithAdditionalHeaders env m t h ts = Inr req \<Longrightarrow>
     ReqURL req = URL_String env (URL t) \<and> ReqMessage req = m \<and> ReqTransformers req = ts \<and>
     (\<forall>k v. h k = Some v \<longrightarrow> ReqHeader req k = Some v)"
  by (auto simp: WriteRequestWithAdditionalHeaders_def map_add_def split: sum.splits)

lemma Request_SendWithRetries_sent:
  "Request_SendWithRetries env w t req rc = (r, w2) \<Longrightarrow>
     sent w2 = sent w \<or> (\<exists>x. sent w2 = sent w @ [x] \<and> ExRequest x = req)"
  by (auto simp: Request_SendWithRetries_def split: prod.splits sum.splits
      dest!: newClient_sent DoWithRetries_sent)

lemma executeRequest_p3_sent:
  "executeRequest_p3 env w t m h rc ts = (r, w') \<Longrightarrow>
     sent w' = sent w \<or>
     (\<exists>x. sent w' = sent w @ [x] \<and> ReqURL (ExRequest x) = URL_String env (URL t) \<and>
          ReqMessage (ExRequest x) = m \<and>
          (\<forall>k v. h k = Some v \<longrightarrow> ReqHeader (ExRequest x) k = Some v))"
  apply (simp add: executeRequest_p3_def Let_def split: sum.splits prod.splits if_splits option.splits)
  apply (auto dest!: Request_SendWithRetries_sent WriteRequestWithAdditionalHeaders_header)
  done

lemma executeRequest_p3_sent_app:
  "executeRequest_p3 env w t m h rc ts = (r, w') \<Longrightarrow> \<exists>xs. sent w' = sent w @ xs"
  by (drule executeRequest_p3_sent) auto

lemma destinationFailed_p3_sent:
  assumes "destinationFailed_p3 env w1 message destination dls config info e = (res, ms, w')"
  shows "\<exists>ys. sent w' = sent w1 @ ys"
  using assms
  by (auto simp: destinationFailed_p3_def split: option.splits result.splits prod.splits
      dest: executeRequest_p3_sent_app)

lemma forwardReply_p3_sent:
  "forwardReply executeRequest_p3 env w1 message replyTarget dls rc responseMessage hs info0 msgs0
     = (res, ms, w') \<Longrightarrow> \<exists>ys. sent w' = sent w1 @ ys"
  by (rule forwardReply_sent [of executeRequest_p3 env rc]) (erule executeRequest_p3_sent_app)

lemma forwardReply_p5_sent:
  "forwardReply executeRequest_p5 env w1 message replyTarget dls rc responseMessage hs info0 msgs0
     = (res, ms, w') \<Longrightarrow> \<exists>ys. sent w' = sent w1 @ ys"
  by (rule forwardReply_sent [of executeRequest_p5 env rc]) (erule executeRequest_p5_sent_app)

lemma send_p3_sent_prefix:
  assumes "URL destination \<noteq> None"
  shows "\<exists>ys. sent (snd (send_p3 env w message destination config)) =
           sent (snd (executeRequest_p3 env w (destination\<lparr>URL := sanitizeURL (URL destination)\<rparr>)
                  message (Header_Set (additionalHeaders config) ''Prefer'' ''reply'')
                  (retryConfig config) [])) @ ys"
proof -
  from assms have "sanitizeURL (URL destination) \<noteq> None"
    by (auto simp: sanitizeURL_def)
  then show ?thesis
    by (fastforce simp: send_p3_def Let_def split: option.splits result.splits prod.splits
        dest: forwardReply_p3_sent destinationFailed_p3_sent)
qed

lemma forwardReply_first_hop:
  assumes exe: "\<And>w t m h ts r w'. exe env w t m h rc ts = (r, w') \<Longrightarrow> \<exists>xs. sent w' = sent w @ xs"
    and fr: "forwardReply exe env w1 message (Some r) dls rc (Some rm) hs info0 msgs0 = (res, ms, w')"
  shows "\<exists>ys. sent w' = sent (snd (exe env w1 r rm hs rc [])) @ ys"
proof -
  obtain r2 w2 where e: "exe env w1 r rm hs rc [] = (r2, w2)"
    by (cases "exe env w1 r rm hs rc []") auto
  show ?thesis
  proof (cases r2)
    case (Panics p)
    with e fr show ?thesis by (simp add: forwardReply_def)
  next
    case (Returns t)
    obtain rrm replyInfo replyErr where t: "t = (rrm, replyInfo, replyErr)"
      by (cases t) auto
    show ?thesis
    proof (cases replyErr)
      case None
      with e fr Returns t show ?thesis by (simp add: forwardReply_def)
    next
      case (Some err)
      with e fr Returns t have
        "replyFailed exe env w2 message r dls rc hs replyInfo err (msgs0 @ [rm]) = (res, ms, w')"
        by (simp add: forwardReply_def)
      from replyFailed_sent [of exe env rc, OF exe this] e show ?thesis by simp
    qed
  qed
qed

lemma send_p3_nil_reply_prefix:
  assumes "URL destination = None" and "reply config = Some r"
  shows "\<exists>ys. sent (snd (send_p3 env w message destination config)) =
           sent (snd (executeRequest_p3 env w (r\<lparr>URL := sanitizeURL (URL r)\<rparr>) message
                  (withNamespace env (additionalHeaders config) (additionalHeaders config))
                  (retryConfig config) [])) @ ys"
proof -
  let ?h = "withNamespace env (additionalHeaders config) (additionalHeaders config)"
  let ?r = "r\<lparr>URL := sanitizeURL (URL r)\<rparr>"
  obtain res ms w' where fr:
    "forwardReply executeRequest_p3 env w message (Some ?r)
       (sanitizeAddressable (deadLetterSink config)) (retryConfig config) (Some message) ?h
       None [] = (res, ms, w')"
    by (cases "forwardReply executeRequest_p3 env w message (Some ?r)
       (sanitizeAddressable (deadLetterSink config)) (retryConfig config) (Some message) ?h
       None []") auto
  from forwardReply_first_hop [of executeRequest_p3 env "retryConfig config", OF _ fr]
  obtain ys where "sent w' =
      sent (snd (executeRequest_p3 env w ?r message ?h (retryConfig config) [])) @ ys"
    using executeRequest_p3_sent_app by blast
  moreover from assms fr have "snd (send_p3 env w message destination config) =
      w'\<lparr>finished := finished w' @ ms\<rparr>"
    by (simp add: send_p3_def sanitizeURL_def sanitizeAddressable_def Let_def)
  ultimately show ?thesis by simp
qed

lemma executeRequest_p5_sends:
  assumes "createRequest env m t h (if spanRecording env then ts @ [PopulateSpan (URL_String env (URL t))] else ts) = Inr req"
    and "newClient env w t = (Inr c, w1)"
    and "rc = None \<or> fromRequest env req = None"
  shows "\<exists>x. sent (snd (executeRequest_p5 env w t m h rc ts)) = sent w @ [x] \<and> ExRequest x = req"
  using assms newClient_sent [OF assms(2)]
  by (auto simp: executeRequest_p5_def DoWithRetries_def Do_def Let_def
      split: sum.splits prod.splits result.splits option.splits)

lemma executeRequest_p3_sends:
  assumes "NewCloudEventRequest env t = None"
    and "WriteRequestWithAdditionalHeaders env m t h (if spanRecording env then ts @ [PopulateSpan (URL_String env (URL t))] else ts) = Inr req"
    and "newClient env w t = (Inr c, w1)"
    and "rc = None \<or> fromRequest env req = None"
  shows "\<exists>x. sent (snd (executeRequest_p3 env w t m h rc ts)) = sent w @ [x] \<and> ExRequest x = req"
  using assms newClient_sent [OF assms(3)]
  by (auto simp: executeRequest_p3_def Request_SendWithRetries_def DoWithRetries_def Do_def
      Let_def split: sum.splits prod.splits result.splits option.splits)

lemma destination_exchange:
  assumes ex: "sent w' = sent w \<or>
     (\<exists>x. sent w' = sent w @ [x] \<and> ReqURL (ExRequest x) = u \<and>
          ReqMessage (ExRequest x) = m \<and>
          (\<forall>k v. (Header_Set h0 ''Prefer'' ''reply'') k = Some v \<longrightarrow> ReqHeader (ExRequest x) k = Some v))"
    and pre: "sent w'' = sent w' @ ys"
  shows "\<exists>xs. sent w'' = sent w @ xs @ ys \<and> sent w' = sent w @ xs \<and> length xs \<le> 1 \<and>
     (\<forall>x\<in>set xs. ReqURL (ExRequest x) = u \<and> ReqMessage (ExRequest x) = m \<and>
        ReqHeader (ExRequest x) ''Prefer'' = Some [''reply''] \<and>
        (\<forall>k v. k \<noteq> ''Prefer'' \<and> h0 k = Some v \<longrightarrow> ReqHeader (ExRequest x) k = Some v))"
  using ex
proof
  assume "sent w' = sent w"
  with pre show ?thesis by (intro exI [of _ "[]"]) simp
next
  assume "\<exists>x. sent w' = sent w @ [x] \<and> ReqURL (ExRequest x) = u \<and>
          ReqMessage (ExRequest x) = m \<and>
          (\<forall>k v. (Header_Set h0 ''Prefer'' ''reply'') k = Some v \<longrightarrow> ReqHeader (ExRequest x) k = Some v)"
  then obtain x where x: "sent w' = sent w @ [x]" "ReqURL (ExRequest x) = u"
      "ReqMessage (ExRequest x) = m"
      "\<forall>k v. (Header_Set h0 ''Prefer'' ''reply'') k = Some v \<longrightarrow> ReqHeader (ExRequest x) k = Some v"
    by blast
  from x(4) have "ReqHeader (ExRequest x) ''Prefer'' = Some [''reply'']"
    by (simp add: Header_Set_def)
  moreover from x(4) have "\<forall>k v. k \<noteq> ''Prefer'' \<and> h0 k = Some v \<longrightarrow> ReqHeader (ExRequest x) k = Some v"
    by (simp add: Header_Set_def)
  ultimately show ?thesis
    using x pre by (intro exI [of _ "[x]"]) simp
qed

subsection \<open>A failed hop with a dead-letter sink, and a response that is no event\<close>

text \<open>
  Where the hop to the destination returns an error, a dead-letter sink is configured and
  \<open>dispatchExecutionInfoTransformers\<close> returns, \<open>send\<close> makes the hop to the sanitized
  dead-letter sink with the original message, the caller's headers, the same retry
  configuration and the transformers built from the destination URL and the
  \<open>DispatchInfo\<close> of the failed hop; its result is the \<open>DispatchInfo\<close> of that hop, with
  an error that names both failures if the hop failed and with no error otherwise.
  \<open>dispatchExecutionInfoTransformers\<close> returns exactly when the encoded body is not longer
  than the cap (the destination not being the broker filter). Where the destination's
  response is no event, \<open>send\<close> returns the \<open>DispatchInfo\<close> of the hop and no error.
\<close>

lemma send_p5_dead_letter:
  assumes "URL destination \<noteq> None"
    and "executeRequest_p5 env w (destination\<lparr>URL := sanitizeURL (URL destination)\<rparr>) message
           (Header_Set (additionalHeaders config) ''Prefer'' ''reply'') (retryConfig config) [] =
         (Returns (rm, info, Some e), w1)"
    and "deadLetterSink config = Some d"
    and "dispatchExecutionInfoTransformers env (sanitizeURL (URL destination)) info = Returns ts"
    and "executeRequest_p5 env w1 (d\<lparr>URL := sanitizeURL (URL d)\<rparr>) message
           (additionalHeaders config) (retryConfig config) [Transformers ts] =
         (Returns (dr, dinfo, derr), w2)"
  shows "send_p5 env w message destination config =
           (case derr of
              Some de \<Rightarrow>
                (Returns (Some dinfo,
                   Some (''unable to complete request to either ''
                         @ URL_String env (sanitizeURL (URL destination)) @ '' ('' @ e
                         @ '') or '' @ URL_String env (sanitizeURL (URL d)) @ '' ('' @ de
                         @ '')'')),
                 w2\<lparr>finished := finished w2 @ [message]\<rparr>)
            | None \<Rightarrow>
                (Returns (Some dinfo, None),
                 w2\<lparr>finished := finished w2 @ [message] @ messageList dr\<rparr>))"
  using assms
  by (simp add: send_p5_def destinationFailed_p5_def sanitizeAddressable_def Let_def
      split: option.splits)

lemma send_p3_dead_letter:
  assumes "URL destination \<noteq> None"
    and "executeRequest_p3 env w (destination\<lparr>URL := sanitizeURL (URL destination)\<rparr>) message
           (Header_Set (additionalHeaders config) ''Prefer'' ''reply'') (retryConfig config) [] =
         (Returns (rm, info, Some e), w1)"
    and "deadLetterSink config = Some d"
    and "dispatchExecutionInfoTransformers env (sanitizeURL (URL destination)) info = Returns ts"
    and "executeRequest_p3 env w1 (d\<lparr>URL := sanitizeURL (URL d)\<rparr>) message
           (additionalHeaders config) (retryConfig config) ts =
         (Returns (dr, dinfo, derr), w2)"
  shows "send_p3 env w message destination config =
           (case derr of
              Some de \<Rightarrow>
                (Returns (Some dinfo,
                   Some (''unable to complete request to either ''
                         @ URL_String env (sanitizeURL (URL destination)) @ '' ('' @ e
                         @ '') or '' @ URL_String env (sanitizeURL (URL d)) @ '' ('' @ de
                         @ '')'')),
                 w2\<lparr>finished := finished w2 @ [message]\<rparr>)
            | None \<Rightarrow>
                (Returns (Some dinfo, None),
                 w2\<lparr>finished := finished w2 @ [message] @ messageList dr\<rparr>))"
proof -
  from assms(1) have "sanitizeURL (URL destination) \<noteq> None"
    by (auto simp: sanitizeURL_def)
  with assms show ?thesis
    by (simp add: send_p3_def destinationFailed_p3_def sanitizeAddressable_def Let_def
        split: option.splits)
qed

lemma dispatchExecutionInfoTransformers_panics:
  assumes "Host (case destination of None \<Rightarrow> zeroURL | Some u \<Rightarrow> u) \<noteq> brokerFilterHost env"
    and "knativeErrorDataExtensionMaxLength env < EncodedLen (length (ResponseBody info))"
  shows "dispatchExecutionInfoTransformers env destination info = Panics indexOutOfRange"
  using assms by (simp add: dispatchExecutionInfoTransformers_def Let_def)

lemma dispatchExecutionInfoTransformers_returns:
  assumes "Host (case destination of None \<Rightarrow> zeroURL | Some u \<Rightarrow> u) \<noteq> brokerFilterHost env"
    and "EncodedLen (length (ResponseBody info)) \<le> knativeErrorDataExtensionMaxLength env"
  shows "dispatchExecutionInfoTransformers env destination info =
           Returns [KnativeErrorTransformers
                      (case sanitizeURL (Some (case destination of None \<Rightarrow> zeroURL | Some u \<Rightarrow> u)) of
                         None \<Rightarrow> zeroURL | Some u \<Rightarrow> u)
                      (ResponseCode info)
                      (take (EncodedLen (length (ResponseBody info)))
                         (stdEncode env (ResponseBody info)))]"
  using assms by (simp add: dispatchExecutionInfoTransformers_def Let_def)

lemma executeRequest_p5_no_event:
  assumes "createRequest env m t h
             (if spanRecording env then ts @ [PopulateSpan (URL_String env (URL t))] else ts)
           = Inr req"
    and "newClient env w t = (Inr c, w1)"
    and "DoWithRetries env w1 c req rc = ((d, Inr r), w2)"
    and "\<not> isFailure (StatusCode r)" and "BodyReadErr r = None"
    and "readEncoding env (RespHeader r) (Body r) = EncodingUnknown"
  shows "executeRequest_p5 env w t m h rc ts =
           (Returns (None,
              \<lparr>Duration = d, ResponseCode = StatusCode r,
               ResponseHeader = passThroughHeaders env (RespHeader r), ResponseBody = []\<rparr>,
              None), w2)"
  using assms by (simp add: executeRequest_p5_def NoDuration_def NoResponse_def Let_def)

lemma executeRequest_p3_no_event:
  assumes "NewCloudEventRequest env t = None"
    and "WriteRequestWithAdditionalHeaders env m t h
           (if spanRecording env then ts @ [PopulateSpan (URL_String env (URL t))] else ts)
         = Inr req"
    and "Request_SendWithRetries env w t req rc = ((d, Inr r), w2)"
    and "\<not> isFailure (StatusCode r)" and "BodyReadErr r = None"
    and "readEncoding env (RespHeader r) (Body r) = EncodingUnknown"
  shows "executeRequest_p3 env w t m h rc ts =
           (Returns (None,
              \<lparr>Duration = NoDuration, ResponseCode = StatusCode r,
               ResponseHeader = passThroughHeaders env (RespHeader r), ResponseBody = []\<rparr>,
              None), w2)"
  using assms by (simp add: executeRequest_p3_def NoResponse_def Let_def)

lemma send_p5_no_event:
  assumes "URL destination \<noteq> None"
    and "executeRequest_p5 env w (destination\<lparr>URL := sanitizeURL (URL destination)\<rparr>) message
           (Header_Set (additionalHeaders config) ''Prefer'' ''reply'') (retryConfig config) [] =
         (Returns (None, info, None), w1)"
  shows "send_p5 env w message destination config =
           (Returns (Some (info\<lparr>ResponseHeader :=
                       withNamespace env (additionalHeaders config) (ResponseHeader info)\<rparr>), None),
            w1\<lparr>finished := finished w1 @ [message]\<rparr>)"
  using assms by (simp add: send_p5_def forwardReply_def Let_def)

lemma send_p3_no_event:
  assumes "URL destination \<noteq> None"
    and "executeRequest_p3 env w (destination\<lparr>URL := sanitizeURL (URL destination)\<rparr>) message
           (Header_Set (additionalHeaders config) ''Prefer'' ''reply'') (retryConfig config) [] =
         (Returns (None, info, None), w1)"
  shows "send_p3 env w message destination config =
           (Returns (Some (info\<lparr>ResponseHeader :=
                       withNamespace env (additionalHeaders config) (ResponseHeader info)\<rparr>), None),
            w1\<lparr>finished := finished w1 @ [message]\<rparr>)"
proof -
  from assms(1) have "sanitizeURL (URL destination) \<noteq> None"
    by (auto simp: sanitizeURL_def)
  with assms show ?thesis by (simp add: send_p3_def forwardReply_def Let_def)
qed

section \<open>Properties of the dispatch pipeline\<close>

text \<open>
  C1, as the code has it. Without a destination URL, \<open>send\<close> of \<open>src/unnamed/part_005\<close>
  returns the error \<open>can not dispatch message to nil destination.URL\<close> with the zero
  \<open>DispatchInfo\<close>, finishes the message and makes no call of \<open>Do\<close> (the state is
  otherwise unchanged). \<open>send\<close> of \<open>src/unnamed/part_003\<close> makes no hop to the destination
  either: with no reply target it returns no error and no \<open>DispatchInfo\<close> and sends
  nothing; with a reply target its first step is the hop to the sanitized reply target
  with the original message and the caller's headers.
\<close>

theorem send_nil_destination_URL:
  "(URL destination = None \<longrightarrow>
      send_p5 env w message destination config =
        (Returns (Some zeroDispatchInfo, Some ''can not dispatch message to nil destination.URL''),
         w\<lparr>finished := finished w @ [message]\<rparr>)) \<and>
   (URL destination = None \<and> reply config = None \<longrightarrow>
      send_p3 env w message destination config =
        (Returns (None, None), w\<lparr>finished := finished w @ [message]\<rparr>)) \<and>
   (URL destination = None \<and> reply config = Some r \<longrightarrow>
      (\<exists>ys. sent (snd (send_p3 env w message destination config)) =
           sent (snd (executeRequest_p3 env w (r\<lparr>URL := sanitizeURL (URL r)\<rparr>) message
                  (withNamespace env (additionalHeaders config) (additionalHeaders config))
                  (retryConfig config) [])) @ ys))"
  using send_p3_nil_reply_prefix [of destination config r env w message]
  by (simp add: send_p5_def send_p3_def forwardReply_def sanitizeURL_def sanitizeAddressable_def)

theorem send_nil_destination_URL_witness:
  "send_p5 (sampleEnv noNetwork) emptyWorld sampleMessage
       ((sampleAddressable ''sink'')\<lparr>URL := None\<rparr>) (sampleConfig None None) =
     (Returns (Some zeroDispatchInfo, Some ''can not dispatch message to nil destination.URL''),
      emptyWorld\<lparr>finished := [sampleMessage]\<rparr>) \<and>
   send_p3 (sampleEnv noNetwork) emptyWorld sampleMessage
       ((sampleAddressable ''sink'')\<lparr>URL := None\<rparr>) (sampleConfig None None) =
     (Returns (None, None), emptyWorld\<lparr>finished := [sampleMessage]\<rparr>)"
  using send_nil_destination_URL
    [of "(sampleAddressable ''sink'')\<lparr>URL := None\<rparr>" "sampleEnv noNetwork" emptyWorld
        sampleMessage "sampleConfig None None" "sampleAddressable ''reply''"]
  by (simp add: sample_defs)

text \<open>
  C1 as stated fails for \<open>send\<close> of \<open>src/unnamed/part_003\<close>: with no destination URL
  and a reply target it sends the original message to the reply target and returns no
  error.
\<close>

theorem send_p3_nil_destination_counterexample:
  "URL ((sampleAddressable ''sink'')\<lparr>URL := None\<rparr>) = None \<and>
   fst (send_p3 (answeringEnv ''http://reply/'' (sampleResponse 202 Map.empty []))
          emptyWorld sampleMessage ((sampleAddressable ''sink'')\<lparr>URL := None\<rparr>)
          (sampleConfig (Some (sampleAddressable ''reply'')) None)) =
     Returns (Some \<lparr>Duration = - 1, ResponseCode = 202, ResponseHeader = Map.empty,
                     ResponseBody = []\<rparr>, None) \<and>
   map (\<lambda>x. ReqURL (ExRequest x))
     (sent (snd (send_p3 (answeringEnv ''http://reply/'' (sampleResponse 202 Map.empty []))
          emptyWorld sampleMessage ((sampleAddressable ''sink'')\<lparr>URL := None\<rparr>)
          (sampleConfig (Some (sampleAddressable ''reply'')) None)))) = [''http://reply/'']"
  by (simp add: pipeline_defs sample_defs)

text \<open>
  C2 fails on the code at a failure response with a long body: the destination answers 500
  with a body of 769 bytes, whose base64 form (1028 bytes) is longer than the cap of 1024,
  and a dead-letter sink is configured. \<open>dispatchExecutionInfoTransformers\<close> panics, so
  \<open>send\<close> panics after the one call of \<open>Do\<close> for the destination and makes none for the
  dead-letter sink, in both copies.
\<close>

theorem send_dead_letter_large_body_panics:
  "fst (send_p5
          largeFailureEnv
          emptyWorld sampleMessage (sampleAddressable ''sink'')
          (sampleConfig None (Some (sampleAddressable ''dls'')))) = Panics indexOutOfRange \<and>
   map (\<lambda>x. ReqURL (ExRequest x))
     (sent (snd (send_p5
          largeFailureEnv
          emptyWorld sampleMessage (sampleAddressable ''sink'')
          (sampleConfig None (Some (sampleAddressable ''dls'')))))) = [''http://sink/''] \<and>
   fst (send_p3
          largeFailureEnv
          emptyWorld sampleMessage (sampleAddressable ''sink'')
          (sampleConfig None (Some (sampleAddressable ''dls'')))) = Panics indexOutOfRange \<and>
   map (\<lambda>x. ReqURL (ExRequest x))
     (sent (snd (send_p3
          largeFailureEnv
          emptyWorld sampleMessage (sampleAddressable ''sink'')
          (sampleConfig None (Some (sampleAddressable ''dls'')))))) = [''http://sink/'']"
  by (simp add: pipeline_defs sample_defs largeFailure_def)

text \<open>
  C5, as the code has it, for a call of \<open>executeRequest\<close> that returns. The sentinel -1
  is recorded as duration and as status code where the dispatch step never started (the
  request or, in \<open>src/unnamed/part_005\<close>, the client could not be made). Where the send
  returned an error and no response, the status code recorded is 500 and the body
  \<open>dispatch error: \<close> followed by the error. Where a response was received and its body
  read, the status code is the response's and the body is recorded only for a failure
  status; there \<open>src/unnamed/part_003\<close> leaves the duration at the sentinel.
\<close>

theorem executeRequest_dispatch_info:
  "NoDuration = - 1 \<and> NoResponse = - 1 \<and>
   (createRequest env m t h
        (if spanRecording env then ts @ [PopulateSpan (URL_String env (URL t))] else ts) = Inl e \<longrightarrow>
      executeRequest_p5 env w t m h rc ts =
        (Returns (None, \<lparr>Duration = NoDuration, ResponseCode = NoResponse,
                          ResponseHeader = Map.empty, ResponseBody = []\<rparr>, Some e), w)) \<and>
   (createRequest env m t h
        (if spanRecording env then ts @ [PopulateSpan (URL_String env (URL t))] else ts) = Inr req \<longrightarrow>
      (newClient env w t = (Inl e, w1) \<longrightarrow>
         executeRequest_p5 env w t m h rc ts =
           (Returns (None, \<lparr>Duration = NoDuration, ResponseCode = NoResponse,
                             ResponseHeader = Map.empty, ResponseBody = []\<rparr>, Some e), w1)) \<and>
      (newClient env w t = (Inr c, w1) \<and>
       DoWithRetries env w1 c req rc = ((d, Inl e), w2) \<longrightarrow>
         executeRequest_p5 env w t m h rc ts =
           (Returns (None, \<lparr>Duration = d, ResponseCode = 500, ResponseHeader = Map.empty,
                             ResponseBody = ''dispatch error: '' @ e\<rparr>, Some e), w2)) \<and>
      (newClient env w t = (Inr c, w1) \<and>
       DoWithRetries env w1 c req rc = ((d, Inr r), w2) \<and> BodyReadErr r = None \<longrightarrow>
         (\<exists>rm err.
            executeRequest_p5 env w t m h rc ts =
              (Returns (rm, \<lparr>Duration = d, ResponseCode = StatusCode r,
                              ResponseHeader = passThroughHeaders env (RespHeader r),
                              ResponseBody = (if isFailure (StatusCode r) then Body r else [])\<rparr>,
                        err), w2) \<and>
            (err = None) = (\<not> isFailure (StatusCode r))))) \<and>
   (NewCloudEventRequest env t = Some e \<longrightarrow>
      executeRequest_p3 env w t m h rc ts =
        (Returns (None, \<lparr>Duration = NoDuration, ResponseCode = NoResponse,
                          ResponseHeader = Map.empty, ResponseBody = []\<rparr>, Some e), w)) \<and>
   (NewCloudEventRequest env t = None \<longrightarrow>
      (WriteRequestWithAdditionalHeaders env m t h
           (if spanRecording env then ts @ [PopulateSpan (URL_String env (URL t))] else ts) = Inl e \<longrightarrow>
         executeRequest_p3 env w t m h rc ts =
           (Returns (None, \<lparr>Duration = NoDuration, ResponseCode = NoResponse,
                             ResponseHeader = Map.empty, ResponseBody = []\<rparr>, Some e), w)) \<and>
      (WriteRequestWithAdditionalHeaders env m t h
           (if spanRecording env then ts @ [PopulateSpan (URL_String env (URL t))] else ts) = Inr req \<and>
       Request_SendWithRetries env w t req rc = ((d, Inl e), w2) \<longrightarrow>
         executeRequest_p3 env w t m h rc ts =
           (Returns (None, \<lparr>Duration = d, ResponseCode = 500, ResponseHeader = Map.empty,
                             ResponseBody = ''dispatch error: '' @ e\<rparr>, Some e), w2)) \<and>
      (WriteRequestWithAdditionalHeaders env m t h
           (if spanRecording env then ts @ [PopulateSpan (URL_String env (URL t))] else ts) = Inr req \<and>
       Request_SendWithRetries env w t req rc = ((d, Inr r), w2) \<and> BodyReadErr r = None \<longrightarrow>
         (\<exists>rm err.
            executeRequest_p3 env w t m h rc ts =
              (Returns (rm, \<lparr>Duration = NoDuration, ResponseCode = StatusCode r,
                              ResponseHeader = passThroughHeaders env (RespHeader r),
                              ResponseBody = (if isFailure (StatusCode r) then Body r else [])\<rparr>,
                        err), w2) \<and>
            (err = None) = (\<not> isFailure (StatusCode r)))))"
  by (simp add: executeRequest_p5_def executeRequest_p3_def NoDuration_def NoResponse_def Let_def)

theorem executeRequest_dispatch_info_witness:
  "executeRequest_p5
       ((sampleEnv noNetwork)\<lparr>newRequestWithContext := (\<lambda>u. Some ''invalid URL'')\<rparr>)
       emptyWorld (sampleAddressable ''sink'') sampleMessage Map.empty None [] =
     (Returns (None, \<lparr>Duration = - 1, ResponseCode = - 1, ResponseHeader = Map.empty,
                       ResponseBody = []\<rparr>,
               Some ''could not create http request: invalid URL''), emptyWorld) \<and>
   fst (executeRequest_p5
       (answeringEnv ''http://sink/'' (sampleResponse 500 Map.empty ''boom''))
       emptyWorld (sampleAddressable ''sink'') sampleMessage Map.empty None []) =
     Returns (None, \<lparr>Duration = 7, ResponseCode = 500, ResponseHeader = Map.empty,
                      ResponseBody = ''boom''\<rparr>,
              Some ''unexpected HTTP response, expected 2xx, got 500'') \<and>
   fst (executeRequest_p5
       (answeringEnv ''http://sink/'' (sampleResponse 202 Map.empty ''ok''))
       emptyWorld (sampleAddressable ''sink'') sampleMessage Map.empty None []) =
     Returns (None, \<lparr>Duration = 7, ResponseCode = 202, ResponseHeader = Map.empty,
                      ResponseBody = []\<rparr>, None)"
  using executeRequest_dispatch_info
    [of "(sampleEnv noNetwork)\<lparr>newRequestWithContext := (\<lambda>u. Some ''invalid URL'')\<rparr>"
        sampleMessage "sampleAddressable ''sink''" Map.empty "[]"
        "''could not create http request: invalid URL''" emptyWorld None]
  by (simp add: pipeline_defs sample_defs showInt_def showNat.simps digitChar_def)

text \<open>
  C5 as stated fails: on a transport-level send error (connection refused), where no
  response was received, the status code recorded is 500, not the sentinel.
\<close>

theorem executeRequest_transport_error_counterexample:
  "executeRequest_p5 (sampleEnv noNetwork) emptyWorld (sampleAddressable ''sink'') sampleMessage
       Map.empty None [] =
     (Returns (None, \<lparr>Duration = 0, ResponseCode = 500, ResponseHeader = Map.empty,
                       ResponseBody = ''dispatch error: connection refused''\<rparr>,
               Some ''connection refused''),
      emptyWorld\<lparr>clients := [''http://sink/'' \<mapsto> sampleClient],
        sent := [\<lparr>ExClient = sampleClient,
                  ExRequest = \<lparr>ReqURL = ''http://sink/'', ReqHeader = [''Ce-Id'' \<mapsto> [''1'']],
                               ReqMessage = sampleMessage, ReqTransformers = []\<rparr>,
                  ExRetry = None\<rparr>]\<rparr>) \<and>
   fst (executeRequest_p3 (sampleEnv noNetwork) emptyWorld (sampleAddressable ''sink'') sampleMessage
       Map.empty None []) =
     Returns (None, \<lparr>Duration = 0, ResponseCode = 500, ResponseHeader = Map.empty,
                       ResponseBody = ''dispatch error: connection refused''\<rparr>,
               Some ''connection refused'')"
  by (simp add: pipeline_defs sample_defs sampleClient_def)

text \<open>
  C7. With a destination URL set, the first step of \<open>send\<close> is the hop to the sanitized
  destination with the caller's headers and \<open>Prefer: reply\<close>, whatever the reply target
  is. The call of \<open>Do\<close> that hop makes, if it makes one (\<open>xs\<close> below holds it), is for the
  destination's URL with the original message; its request has the header \<open>Prefer\<close> set
  to \<open>reply\<close> and every other header of the caller with the caller's values. The hop
  makes the call whenever the request and the client can be made (lemmas
  \<open>executeRequest_p5_sends\<close> and \<open>executeRequest_p3_sends\<close>).
\<close>

theorem send_prefer_reply:
  assumes "URL destination \<noteq> None"
  shows "(\<exists>xs ys.
            sent (snd (send_p5 env w message destination config)) = sent w @ xs @ ys \<and>
            sent (snd (executeRequest_p5 env w
                   (destination\<lparr>URL := sanitizeURL (URL destination)\<rparr>) message
                   (Header_Set (additionalHeaders config) ''Prefer'' ''reply'')
                   (retryConfig config) [])) = sent w @ xs \<and>
            length xs \<le> 1 \<and>
            (\<forall>x\<in>set xs.
               ReqURL (ExRequest x) = URL_String env (sanitizeURL (URL destination)) \<and>
               ReqMessage (ExRequest x) = message \<and>
               ReqHeader (ExRequest x) ''Prefer'' = Some [''reply''] \<and>
               (\<forall>k v. k \<noteq> ''Prefer'' \<and> additionalHeaders config k = Some v \<longrightarrow>
                      ReqHeader (ExRequest x) k = Some v))) \<and>
         (\<exists>xs ys.
            sent (snd (send_p3 env w message destination config)) = sent w @ xs @ ys \<and>
            sent (snd (executeRequest_p3 env w
                   (destination\<lparr>URL := sanitizeURL (URL destination)\<rparr>) message
                   (Header_Set (additionalHeaders config) ''Prefer'' ''reply'')
                   (retryConfig config) [])) = sent w @ xs \<and>
            length xs \<le> 1 \<and>
            (\<forall>x\<in>set xs.
               ReqURL (ExRequest x) = URL_String env (sanitizeURL (URL destination)) \<and>
               ReqMessage (ExRequest x) = message \<and>
               ReqHeader (ExRequest x) ''Prefer'' = Some [''reply''] \<and>
               (\<forall>k v. k \<noteq> ''Prefer'' \<and> additionalHeaders config k = Some v \<longrightarrow>
                      ReqHeader (ExRequest x) k = Some v)))"
    (is "?P5 \<and> ?P3")
proof
  let ?d = "destination\<lparr>URL := sanitizeURL (URL destination)\<rparr>"
  let ?h = "Header_Set (additionalHeaders config) ''Prefer'' ''reply''"
  let ?u = "URL_String env (sanitizeURL (URL destination))"
  obtain r5 w5 where
    e5: "executeRequest_p5 env w ?d message ?h (retryConfig config) [] = (r5, w5)"
    by (cases "executeRequest_p5 env w ?d message ?h (retryConfig config) []") auto
  from send_p5_sent_prefix [OF assms, of env w message config] e5
  obtain ys where ys: "sent (snd (send_p5 env w message destination config)) = sent w5 @ ys"
    by auto
  from destination_exchange [OF _ ys, of w ?u message "additionalHeaders config"]
    executeRequest_p5_sent [OF e5] e5
  show ?P5 by auto
next
  let ?d = "destination\<lparr>URL := sanitizeURL (URL destination)\<rparr>"
  let ?h = "Header_Set (additionalHeaders config) ''Prefer'' ''reply''"
  let ?u = "URL_String env (sanitizeURL (URL destination))"
  obtain r3 w3 where
    e3: "executeRequest_p3 env w ?d message ?h (retryConfig config) [] = (r3, w3)"
    by (cases "executeRequest_p3 env w ?d message ?h (retryConfig config) []") auto
  from send_p3_sent_prefix [OF assms, of env w message config] e3
  obtain ys where ys: "sent (snd (send_p3 env w message destination config)) = sent w3 @ ys"
    by auto
  from destination_exchange [OF _ ys, of w ?u message "additionalHeaders config"]
    executeRequest_p3_sent [OF e3] e3
  show ?P3 by auto
qed

theorem send_prefer_reply_witness:
  "URL (sampleAddressable ''sink'') \<noteq> None \<and>
   map (\<lambda>x. (ReqURL (ExRequest x), ReqHeader (ExRequest x) ''Prefer'',
              ReqHeader (ExRequest x) ''X-Request-Id''))
     (sent (snd (send_p5 (answeringEnv ''http://sink/'' (sampleResponse 202 Map.empty []))
        emptyWorld sampleMessage (sampleAddressable ''sink'') (sampleConfig None None))))
     = [(''http://sink/'', Some [''reply''], Some [''42''])] \<and>
   map (\<lambda>x. (ReqURL (ExRequest x), ReqHeader (ExRequest x) ''Prefer'',
              ReqHeader (ExRequest x) ''X-Request-Id''))
     (sent (snd (send_p3 (answeringEnv ''http://sink/'' (sampleResponse 202 Map.empty []))
        emptyWorld sampleMessage (sampleAddressable ''sink'') (sampleConfig None None))))
     = [(''http://sink/'', Some [''reply''], Some [''42''])]"
  using send_prefer_reply
    [of "sampleAddressable ''sink''"
        "answeringEnv ''http://sink/'' (sampleResponse 202 Map.empty [])"
        emptyWorld sampleMessage "sampleConfig None None"]
  by (simp add: pipeline_defs sample_defs)

text \<open>
  C8 fails on the code at a response with status 200 that is no event and whose body could
  not be read to its end: \<open>executeRequest\<close> formats the message with \<open>err.Error()\<close>
  where \<open>err\<close> is nil, and panics, in both copies; so does \<open>send\<close>.
\<close>

theorem executeRequest_unreadable_body_panics:
  "readEncoding (answeringEnv ''http://sink/'' unreadableResponse)
       (RespHeader unreadableResponse) (Body unreadableResponse) = EncodingUnknown \<and>
   \<not> isFailure (StatusCode unreadableResponse) \<and>
   fst (executeRequest_p5 (answeringEnv ''http://sink/'' unreadableResponse)
          emptyWorld (sampleAddressable ''sink'') sampleMessage Map.empty None []) =
     Panics nilDereference \<and>
   fst (executeRequest_p3 (answeringEnv ''http://sink/'' unreadableResponse)
          emptyWorld (sampleAddressable ''sink'') sampleMessage Map.empty None []) =
     Panics nilDereference \<and>
   fst (send_p5 (answeringEnv ''http://sink/'' unreadableResponse)
          emptyWorld sampleMessage (sampleAddressable ''sink'') (sampleConfig None None)) =
     Panics nilDereference \<and>
   fst (send_p3 (answeringEnv ''http://sink/'' unreadableResponse)
          emptyWorld sampleMessage (sampleAddressable ''sink'') (sampleConfig None None)) =
     Panics nilDereference"
  by (simp add: pipeline_defs sample_defs unreadableResponse_def io_EOF_def)

end
